theory Spec2Isabelle
  imports Complex_Main "HOL-Library.Word"
begin

section \<open>Data model of the comparison tree\<close>

text \<open>
  The synchronization engine of \<^verbatim>\<open>synchronization.cpp\<close> works on a folder comparison
  tree. Every item carries one of fifteen sync operations; the value read by
  \<^verbatim>\<open>getSyncOperation()\<close> is a field of the item here. File sizes are \<^verbatim>\<open>uint64_t\<close>,
  the statistics counters are \<^verbatim>\<open>int\<close> and the byte counters \<^verbatim>\<open>int64_t\<close>: they are
  words of that width, read signed (\<open>sint\<close>) where the source compares them signed.
\<close>

datatype sync_operation =
    SO_CREATE_NEW_LEFT
  | SO_CREATE_NEW_RIGHT
  | SO_DELETE_LEFT
  | SO_DELETE_RIGHT
  | SO_MOVE_LEFT_FROM
  | SO_MOVE_LEFT_TO
  | SO_MOVE_RIGHT_FROM
  | SO_MOVE_RIGHT_TO
  | SO_OVERWRITE_LEFT
  | SO_OVERWRITE_RIGHT
  | SO_COPY_METADATA_TO_LEFT
  | SO_COPY_METADATA_TO_RIGHT
  | SO_DO_NOTHING
  | SO_EQUAL
  | SO_UNRESOLVED_CONFLICT

datatype selected_side = LEFT_SIDE | RIGHT_SIDE

type_synonym c_int = "32 word"
type_synonym int64_t = "64 word"
type_synonym uint64_t = "64 word"
type_synonym size_t = "64 word"

record file_pair =
  filePairItemName :: string
  fileSyncOperation :: sync_operation
  fileSizeLeft :: uint64_t
  fileSizeRight :: uint64_t
  filePairRelativePath :: string
  fileSyncOpConflict :: string

record symlink_pair =
  linkPairItemName :: string
  linkSyncOperation :: sync_operation
  linkPairRelativePath :: string
  linkSyncOpConflict :: string

text \<open>
  \<^verbatim>\<open>FolderPair\<close> derives from \<^verbatim>\<open>ContainerObject\<close>, which owns the three child lists
  \<^verbatim>\<open>refSubFiles()\<close>, \<^verbatim>\<open>refSubLinks()\<close>, \<^verbatim>\<open>refSubFolders()\<close>; a \<^verbatim>\<open>BaseFolderPair\<close> is a
  \<^verbatim>\<open>ContainerObject\<close> too.
\<close>

datatype container_object =
  ContainerObject (refSubFiles: "file_pair list") (refSubLinks: "symlink_pair list")
                  (refSubFolders: "folder_pair list")
and folder_pair =
  FolderPair (folderPairItemName: string) (folderSyncOperation: sync_operation)
             (folderPairRelativePath: string) (folderSyncOpConflict: string)
             (folderContainer: container_object)

definition getFileSize :: "selected_side \<Rightarrow> file_pair \<Rightarrow> uint64_t" where
  "getFileSize side file = (case side of LEFT_SIDE \<Rightarrow> fileSizeLeft file | RIGHT_SIDE \<Rightarrow> fileSizeRight file)"

section \<open>Pass assignment\<close>

datatype pass_no = PASS_ZERO | PASS_ONE | PASS_TWO | PASS_NEVER

text \<open>
  The three overloads of \<^verbatim>\<open>FolderPairSyncer::getPass\<close>. The \<^verbatim>\<open>assert(false)\<close> on the
  move operations of links and folders is compiled out in a release build; control then
  falls through to \<^verbatim>\<open>return PASS_NEVER\<close>.
\<close>

definition getPass_FilePair :: "file_pair \<Rightarrow> pass_no" where
  "getPass_FilePair file =
     (case fileSyncOperation file of
        SO_DELETE_LEFT \<Rightarrow> PASS_ONE
      | SO_DELETE_RIGHT \<Rightarrow> PASS_ONE
      | SO_OVERWRITE_LEFT \<Rightarrow>
          if getFileSize RIGHT_SIDE file < getFileSize LEFT_SIDE file then PASS_ONE else PASS_TWO
      | SO_OVERWRITE_RIGHT \<Rightarrow>
          if getFileSize LEFT_SIDE file < getFileSize RIGHT_SIDE file then PASS_ONE else PASS_TWO
      | SO_MOVE_LEFT_FROM \<Rightarrow> PASS_NEVER
      | SO_MOVE_RIGHT_FROM \<Rightarrow> PASS_NEVER
      | SO_MOVE_LEFT_TO \<Rightarrow> PASS_TWO
      | SO_MOVE_RIGHT_TO \<Rightarrow> PASS_TWO
      | SO_CREATE_NEW_LEFT \<Rightarrow> PASS_TWO
      | SO_CREATE_NEW_RIGHT \<Rightarrow> PASS_TWO
      | SO_COPY_METADATA_TO_LEFT \<Rightarrow> PASS_TWO
      | SO_COPY_METADATA_TO_RIGHT \<Rightarrow> PASS_TWO
      | SO_DO_NOTHING \<Rightarrow> PASS_NEVER
      | SO_EQUAL \<Rightarrow> PASS_NEVER
      | SO_UNRESOLVED_CONFLICT \<Rightarrow> PASS_NEVER)"

definition getPass_SymlinkPair :: "symlink_pair \<Rightarrow> pass_no" where
  "getPass_SymlinkPair link =
     (case linkSyncOperation link of
        SO_DELETE_LEFT \<Rightarrow> PASS_ONE
      | SO_DELETE_RIGHT \<Rightarrow> PASS_ONE
      | SO_OVERWRITE_LEFT \<Rightarrow> PASS_TWO
      | SO_OVERWRITE_RIGHT \<Rightarrow> PASS_TWO
      | SO_CREATE_NEW_LEFT \<Rightarrow> PASS_TWO
      | SO_CREATE_NEW_RIGHT \<Rightarrow> PASS_TWO
      | SO_COPY_METADATA_TO_LEFT \<Rightarrow> PASS_TWO
      | SO_COPY_METADATA_TO_RIGHT \<Rightarrow> PASS_TWO
      | SO_MOVE_LEFT_FROM \<Rightarrow> PASS_NEVER
      | SO_MOVE_RIGHT_FROM \<Rightarrow> PASS_NEVER
      | SO_MOVE_LEFT_TO \<Rightarrow> PASS_NEVER
      | SO_MOVE_RIGHT_TO \<Rightarrow> PASS_NEVER
      | SO_DO_NOTHING \<Rightarrow> PASS_NEVER
      | SO_EQUAL \<Rightarrow> PASS_NEVER
      | SO_UNRESOLVED_CONFLICT \<Rightarrow> PASS_NEVER)"

definition getPass_FolderPair :: "folder_pair \<Rightarrow> pass_no" where
  "getPass_FolderPair folder =
     (case folderSyncOperation folder of
        SO_DELETE_LEFT \<Rightarrow> PASS_ONE
      | SO_DELETE_RIGHT \<Rightarrow> PASS_ONE
      | SO_CREATE_NEW_LEFT \<Rightarrow> PASS_TWO
      | SO_CREATE_NEW_RIGHT \<Rightarrow> PASS_TWO
      | SO_OVERWRITE_LEFT \<Rightarrow> PASS_TWO
      | SO_OVERWRITE_RIGHT \<Rightarrow> PASS_TWO
      | SO_COPY_METADATA_TO_LEFT \<Rightarrow> PASS_TWO
      | SO_COPY_METADATA_TO_RIGHT \<Rightarrow> PASS_TWO
      | SO_MOVE_LEFT_FROM \<Rightarrow> PASS_NEVER
      | SO_MOVE_RIGHT_FROM \<Rightarrow> PASS_NEVER
      | SO_MOVE_LEFT_TO \<Rightarrow> PASS_NEVER
      | SO_MOVE_RIGHT_TO \<Rightarrow> PASS_NEVER
      | SO_DO_NOTHING \<Rightarrow> PASS_NEVER
      | SO_EQUAL \<Rightarrow> PASS_NEVER
      | SO_UNRESOLVED_CONFLICT \<Rightarrow> PASS_NEVER)"

text \<open>
  The pass table as the specification words it: the operations are grouped into
  deletions, the two overwrites, the operations of the second pass, and the rest.
\<close>

definition isDelete :: "sync_operation \<Rightarrow> bool" where
  "isDelete op = (op = SO_DELETE_LEFT \<or> op = SO_DELETE_RIGHT)"

definition spec_pass_file :: "sync_operation \<Rightarrow> nat \<Rightarrow> nat \<Rightarrow> pass_no" where
  "spec_pass_file op leftSize rightSize =
     (if isDelete op then PASS_ONE
      else if op = SO_OVERWRITE_LEFT then (if leftSize > rightSize then PASS_ONE else PASS_TWO)
      else if op = SO_OVERWRITE_RIGHT then (if rightSize > leftSize then PASS_ONE else PASS_TWO)
      else if op \<in> {SO_MOVE_LEFT_TO, SO_MOVE_RIGHT_TO, SO_CREATE_NEW_LEFT, SO_CREATE_NEW_RIGHT,
                     SO_COPY_METADATA_TO_LEFT, SO_COPY_METADATA_TO_RIGHT} then PASS_TWO
      else PASS_NEVER)"

definition spec_pass_link_or_folder :: "sync_operation \<Rightarrow> pass_no" where
  "spec_pass_link_or_folder op =
     (if isDelete op then PASS_ONE
      else if op \<in> {SO_MOVE_LEFT_FROM, SO_MOVE_RIGHT_FROM, SO_MOVE_LEFT_TO, SO_MOVE_RIGHT_TO,
                     SO_DO_NOTHING, SO_EQUAL, SO_UNRESOLVED_CONFLICT} then PASS_NEVER
      else PASS_TWO)"

section \<open>SyncStatistics\<close>

text \<open>
  The private members of the class; a member \<^verbatim>\<open>createLeft_\<close> of the source is the
  field \<open>createLeft\<close> here, and likewise for every member name that ends in an underscore.
\<close>

record sync_statistics =
  createLeft :: c_int
  createRight :: c_int
  updateLeft :: c_int
  updateRight :: c_int
  deleteLeft :: c_int
  deleteRight :: c_int
  physicalDeleteLeft :: bool
  physicalDeleteRight :: bool
  conflictMsgs :: "(string \<times> string) list"
  bytesToProcess :: int64_t
  rowsTotal :: size_t

text \<open>The member initialisers of the class: every counter starts at zero.\<close>

definition initial_statistics :: sync_statistics where
  "initial_statistics =
     \<lparr>createLeft = 0, createRight = 0, updateLeft = 0, updateRight = 0,
      deleteLeft = 0, deleteRight = 0,
      physicalDeleteLeft = False, physicalDeleteRight = False,
      conflictMsgs = [], bytesToProcess = 0, rowsTotal = 0\<rparr>"

text \<open>
  \<^verbatim>\<open>SyncStatistics::processFile\<close>. The \<^verbatim>\<open>static_cast<int64_t>\<close> of a \<^verbatim>\<open>uint64_t\<close> size keeps
  the 64 bits, so the sum is the sum of the two words.
\<close>

definition processFile :: "file_pair \<Rightarrow> sync_statistics \<Rightarrow> sync_statistics" where
  "processFile file st =
     (case fileSyncOperation file of
        SO_CREATE_NEW_LEFT \<Rightarrow>
          st\<lparr>createLeft := createLeft st + 1,
             bytesToProcess := bytesToProcess st + getFileSize RIGHT_SIDE file\<rparr>
      | SO_CREATE_NEW_RIGHT \<Rightarrow>
          st\<lparr>createRight := createRight st + 1,
             bytesToProcess := bytesToProcess st + getFileSize LEFT_SIDE file\<rparr>
      | SO_DELETE_LEFT \<Rightarrow>
          st\<lparr>deleteLeft := deleteLeft st + 1, physicalDeleteLeft := True\<rparr>
      | SO_DELETE_RIGHT \<Rightarrow>
          st\<lparr>deleteRight := deleteRight st + 1, physicalDeleteRight := True\<rparr>
      | SO_MOVE_LEFT_TO \<Rightarrow> st\<lparr>updateLeft := updateLeft st + 1\<rparr>
      | SO_MOVE_RIGHT_TO \<Rightarrow> st\<lparr>updateRight := updateRight st + 1\<rparr>
      | SO_MOVE_LEFT_FROM \<Rightarrow> st
      | SO_MOVE_RIGHT_FROM \<Rightarrow> st
      | SO_OVERWRITE_LEFT \<Rightarrow>
          st\<lparr>updateLeft := updateLeft st + 1,
             bytesToProcess := bytesToProcess st + getFileSize RIGHT_SIDE file,
             physicalDeleteLeft := True\<rparr>
      | SO_OVERWRITE_RIGHT \<Rightarrow>
          st\<lparr>updateRight := updateRight st + 1,
             bytesToProcess := bytesToProcess st + getFileSize LEFT_SIDE file,
             physicalDeleteRight := True\<rparr>
      | SO_UNRESOLVED_CONFLICT \<Rightarrow>
          st\<lparr>conflictMsgs := conflictMsgs st @ [(filePairRelativePath file, fileSyncOpConflict file)]\<rparr>
      | SO_COPY_METADATA_TO_LEFT \<Rightarrow> st\<lparr>updateLeft := updateLeft st + 1\<rparr>
      | SO_COPY_METADATA_TO_RIGHT \<Rightarrow> st\<lparr>updateRight := updateRight st + 1\<rparr>
      | SO_DO_NOTHING \<Rightarrow> st
      | SO_EQUAL \<Rightarrow> st)"

definition processLink :: "symlink_pair \<Rightarrow> sync_statistics \<Rightarrow> sync_statistics" where
  "processLink link st =
     (case linkSyncOperation link of
        SO_CREATE_NEW_LEFT \<Rightarrow> st\<lparr>createLeft := createLeft st + 1\<rparr>
      | SO_CREATE_NEW_RIGHT \<Rightarrow> st\<lparr>createRight := createRight st + 1\<rparr>
      | SO_DELETE_LEFT \<Rightarrow>
          st\<lparr>deleteLeft := deleteLeft st + 1, physicalDeleteLeft := True\<rparr>
      | SO_DELETE_RIGHT \<Rightarrow>
          st\<lparr>deleteRight := deleteRight st + 1, physicalDeleteRight := True\<rparr>
      | SO_OVERWRITE_LEFT \<Rightarrow>
          st\<lparr>updateLeft := updateLeft st + 1, physicalDeleteLeft := True\<rparr>
      | SO_COPY_METADATA_TO_LEFT \<Rightarrow>
          st\<lparr>updateLeft := updateLeft st + 1, physicalDeleteLeft := True\<rparr>
      | SO_OVERWRITE_RIGHT \<Rightarrow>
          st\<lparr>updateRight := updateRight st + 1, physicalDeleteRight := True\<rparr>
      | SO_COPY_METADATA_TO_RIGHT \<Rightarrow>
          st\<lparr>updateRight := updateRight st + 1, physicalDeleteRight := True\<rparr>
      | SO_UNRESOLVED_CONFLICT \<Rightarrow>
          st\<lparr>conflictMsgs := conflictMsgs st @ [(linkPairRelativePath link, linkSyncOpConflict link)]\<rparr>
      | SO_MOVE_LEFT_FROM \<Rightarrow> st
      | SO_MOVE_RIGHT_FROM \<Rightarrow> st
      | SO_MOVE_LEFT_TO \<Rightarrow> st
      | SO_MOVE_RIGHT_TO \<Rightarrow> st
      | SO_DO_NOTHING \<Rightarrow> st
      | SO_EQUAL \<Rightarrow> st)"

text \<open>The \<^verbatim>\<open>switch\<close> of \<^verbatim>\<open>SyncStatistics::processFolder\<close>, before it recurses.\<close>

definition processFolderOperation ::
  "sync_operation \<Rightarrow> string \<Rightarrow> string \<Rightarrow> sync_statistics \<Rightarrow> sync_statistics" where
  "processFolderOperation op relPath conflict st =
     (case op of
        SO_CREATE_NEW_LEFT \<Rightarrow> st\<lparr>createLeft := createLeft st + 1\<rparr>
      | SO_CREATE_NEW_RIGHT \<Rightarrow> st\<lparr>createRight := createRight st + 1\<rparr>
      | SO_DELETE_LEFT \<Rightarrow>
          st\<lparr>deleteLeft := deleteLeft st + 1, physicalDeleteLeft := True\<rparr>
      | SO_DELETE_RIGHT \<Rightarrow>
          st\<lparr>deleteRight := deleteRight st + 1, physicalDeleteRight := True\<rparr>
      | SO_UNRESOLVED_CONFLICT \<Rightarrow> st\<lparr>conflictMsgs := conflictMsgs st @ [(relPath, conflict)]\<rparr>
      | SO_OVERWRITE_LEFT \<Rightarrow> st\<lparr>updateLeft := updateLeft st + 1\<rparr>
      | SO_COPY_METADATA_TO_LEFT \<Rightarrow> st\<lparr>updateLeft := updateLeft st + 1\<rparr>
      | SO_OVERWRITE_RIGHT \<Rightarrow> st\<lparr>updateRight := updateRight st + 1\<rparr>
      | SO_COPY_METADATA_TO_RIGHT \<Rightarrow> st\<lparr>updateRight := updateRight st + 1\<rparr>
      | SO_MOVE_LEFT_FROM \<Rightarrow> st
      | SO_MOVE_RIGHT_FROM \<Rightarrow> st
      | SO_MOVE_LEFT_TO \<Rightarrow> st
      | SO_MOVE_RIGHT_TO \<Rightarrow> st
      | SO_DO_NOTHING \<Rightarrow> st
      | SO_EQUAL \<Rightarrow> st)"

text \<open>
  \<^verbatim>\<open>SyncStatistics::recurse\<close> and \<^verbatim>\<open>processFolder\<close>: files, then links, then folders (each
  of which recurses), then the three list sizes are added to the row count.
\<close>

fun recurse :: "container_object \<Rightarrow> sync_statistics \<Rightarrow> sync_statistics"
and processFolder :: "folder_pair \<Rightarrow> sync_statistics \<Rightarrow> sync_statistics" where
  "recurse (ContainerObject files links folders) st =
     (let st1 = fold processFile files st;
          st2 = fold processLink links st1;
          st3 = fold processFolder folders st2
      in st3\<lparr>rowsTotal := rowsTotal st3 + of_nat (length folders)
                               + of_nat (length files) + of_nat (length links)\<rparr>)"
| "processFolder (FolderPair name op relPath conflict hierObj) st =
     recurse hierObj (processFolderOperation op relPath conflict st)"

text \<open>The constructors \<^verbatim>\<open>SyncStatistics(const ContainerObject&)\<close> and
  \<^verbatim>\<open>SyncStatistics(const FilePair&)\<close>.\<close>

definition SyncStatistics_ContainerObject :: "container_object \<Rightarrow> sync_statistics" where
  "SyncStatistics_ContainerObject hierObj = recurse hierObj initial_statistics"

definition SyncStatistics_FilePair :: "file_pair \<Rightarrow> sync_statistics" where
  "SyncStatistics_FilePair file =
     (let st = processFile file initial_statistics in st\<lparr>rowsTotal := rowsTotal st + 1\<rparr>)"

text \<open>
  Modelled from the spec: the accessors of \<^verbatim>\<open>SyncStatistics\<close> are declared in
  \<^verbatim>\<open>synchronization.h\<close>, which is not among the sources. The specification describes the
  statistics as per-side counts of creates, updates and deletes, a total row count, the
  pending byte volume and the list of conflicts; the accessors without a side add the two
  sides.
\<close>

definition createCountSide :: "selected_side \<Rightarrow> sync_statistics \<Rightarrow> c_int" where
  "createCountSide side st = (case side of LEFT_SIDE \<Rightarrow> createLeft st | RIGHT_SIDE \<Rightarrow> createRight st)"

definition createCount :: "sync_statistics \<Rightarrow> c_int" where
  "createCount st = createLeft st + createRight st"

definition updateCount :: "sync_statistics \<Rightarrow> c_int" where
  "updateCount st = updateLeft st + updateRight st"

definition deleteCount :: "sync_statistics \<Rightarrow> c_int" where
  "deleteCount st = deleteLeft st + deleteRight st"

definition conflictCount :: "sync_statistics \<Rightarrow> size_t" where
  "conflictCount st = of_nat (length (conflictMsgs st))"

definition rowCount :: "sync_statistics \<Rightarrow> size_t" where
  "rowCount st = rowsTotal st"

definition getBytesToProcess :: "sync_statistics \<Rightarrow> int64_t" where
  "getBytesToProcess st = bytesToProcess st"

definition getCUD :: "sync_statistics \<Rightarrow> c_int" where
  "getCUD stat = createCount stat + updateCount stat + deleteCount stat"

text \<open>
  \<^verbatim>\<open>significantDifferenceDetected\<close>. The last comparison is made in \<^verbatim>\<open>double\<close>:
  \<^verbatim>\<open>nonMatchingRows > 0.5 * rowCount()\<close>. An \<^verbatim>\<open>int\<close> converts exactly, a row count below
  \<open>2 ^ 53\<close> converts exactly and halving is exact, so the comparison is the one of the real
  numbers.
\<close>

definition significantDifferenceDetected :: "sync_statistics \<Rightarrow> bool" where
  "significantDifferenceDetected folderPairStat =
     (if (createCountSide LEFT_SIDE folderPairStat = 0 \<or>
          createCountSide RIGHT_SIDE folderPairStat = 0) \<and>
         updateCount folderPairStat = 0 \<and>
         deleteCount folderPairStat = 0 \<and>
         conflictCount folderPairStat = 0
      then False
      else (let nonMatchingRows = createCount folderPairStat + deleteCount folderPairStat
            in 10 \<le> sint nonMatchingRows \<and>
               0.5 * real (unat (rowCount folderPairStat)) < real_of_int (sint nonMatchingRows)))"

text \<open>
  The byte volume of one file as the specification words it: the source side's size for
  a copy or an overwrite, nothing for any other operation.
\<close>

definition spec_bytes :: "file_pair \<Rightarrow> uint64_t" where
  "spec_bytes file =
     (if fileSyncOperation file \<in> {SO_CREATE_NEW_LEFT, SO_OVERWRITE_LEFT} then fileSizeRight file
      else if fileSyncOperation file \<in> {SO_CREATE_NEW_RIGHT, SO_OVERWRITE_RIGHT} then fileSizeLeft file
      else 0)"

section \<open>MinimumDiskSpaceNeeded\<close>

record minimum_disk_space_needed =
  spaceNeededLeft :: int64_t
  spaceNeededRight :: int64_t

text \<open>The body of the loop over \<^verbatim>\<open>refSubFiles()\<close> in \<^verbatim>\<open>MinimumDiskSpaceNeeded::recurse\<close>.\<close>

definition spaceFile :: "file_pair \<Rightarrow> minimum_disk_space_needed \<Rightarrow> minimum_disk_space_needed" where
  "spaceFile file inst =
     (case fileSyncOperation file of
        SO_CREATE_NEW_LEFT \<Rightarrow>
          inst\<lparr>spaceNeededLeft := spaceNeededLeft inst + getFileSize RIGHT_SIDE file\<rparr>
      | SO_CREATE_NEW_RIGHT \<Rightarrow>
          inst\<lparr>spaceNeededRight := spaceNeededRight inst + getFileSize LEFT_SIDE file\<rparr>
      | SO_DELETE_LEFT \<Rightarrow>
          inst\<lparr>spaceNeededLeft := spaceNeededLeft inst - getFileSize LEFT_SIDE file\<rparr>
      | SO_DELETE_RIGHT \<Rightarrow>
          inst\<lparr>spaceNeededRight := spaceNeededRight inst - getFileSize RIGHT_SIDE file\<rparr>
      | SO_OVERWRITE_LEFT \<Rightarrow>
          inst\<lparr>spaceNeededLeft :=
                 spaceNeededLeft inst - getFileSize LEFT_SIDE file + getFileSize RIGHT_SIDE file\<rparr>
      | SO_OVERWRITE_RIGHT \<Rightarrow>
          inst\<lparr>spaceNeededRight :=
                 spaceNeededRight inst - getFileSize RIGHT_SIDE file + getFileSize LEFT_SIDE file\<rparr>
      | SO_DO_NOTHING \<Rightarrow> inst
      | SO_EQUAL \<Rightarrow> inst
      | SO_UNRESOLVED_CONFLICT \<Rightarrow> inst
      | SO_COPY_METADATA_TO_LEFT \<Rightarrow> inst
      | SO_COPY_METADATA_TO_RIGHT \<Rightarrow> inst
      | SO_MOVE_LEFT_FROM \<Rightarrow> inst
      | SO_MOVE_RIGHT_FROM \<Rightarrow> inst
      | SO_MOVE_LEFT_TO \<Rightarrow> inst
      | SO_MOVE_RIGHT_TO \<Rightarrow> inst)"

fun spaceRecurse :: "container_object \<Rightarrow> minimum_disk_space_needed \<Rightarrow> minimum_disk_space_needed"
and spaceRecurseFolder :: "folder_pair \<Rightarrow> minimum_disk_space_needed \<Rightarrow> minimum_disk_space_needed" where
  "spaceRecurse (ContainerObject files links folders) inst =
     fold spaceRecurseFolder folders (fold spaceFile files inst)"
| "spaceRecurseFolder (FolderPair name op relPath conflict hierObj) inst = spaceRecurse hierObj inst"

definition calculate :: "container_object \<Rightarrow> int64_t \<times> int64_t" where
  "calculate baseFolder =
     (let inst = spaceRecurse baseFolder \<lparr>spaceNeededLeft = 0, spaceNeededRight = 0\<rparr>
      in (spaceNeededLeft inst, spaceNeededRight inst))"

text \<open>
  The estimate as the specification words it. For a side, a file adds the other side's
  size when it is created on the side, subtracts the side's own size when it is deleted
  there, does both when it is overwritten there, and adds nothing otherwise. The files of
  a base pair are those of the base folder and of every folder below it.
\<close>

definition otherSide :: "selected_side \<Rightarrow> selected_side" where
  "otherSide side = (case side of LEFT_SIDE \<Rightarrow> RIGHT_SIDE | RIGHT_SIDE \<Rightarrow> LEFT_SIDE)"

definition createOn :: "selected_side \<Rightarrow> sync_operation" where
  "createOn side = (case side of LEFT_SIDE \<Rightarrow> SO_CREATE_NEW_LEFT | RIGHT_SIDE \<Rightarrow> SO_CREATE_NEW_RIGHT)"

definition deleteOn :: "selected_side \<Rightarrow> sync_operation" where
  "deleteOn side = (case side of LEFT_SIDE \<Rightarrow> SO_DELETE_LEFT | RIGHT_SIDE \<Rightarrow> SO_DELETE_RIGHT)"

definition overwriteOn :: "selected_side \<Rightarrow> sync_operation" where
  "overwriteOn side = (case side of LEFT_SIDE \<Rightarrow> SO_OVERWRITE_LEFT | RIGHT_SIDE \<Rightarrow> SO_OVERWRITE_RIGHT)"

definition spec_space_delta :: "selected_side \<Rightarrow> file_pair \<Rightarrow> int64_t" where
  "spec_space_delta side file =
     (if fileSyncOperation file = createOn side then getFileSize (otherSide side) file
      else if fileSyncOperation file = deleteOn side then - getFileSize side file
      else if fileSyncOperation file = overwriteOn side
        then getFileSize (otherSide side) file - getFileSize side file
      else 0)"

fun allFiles :: "container_object \<Rightarrow> file_pair list"
and allFilesFolder :: "folder_pair \<Rightarrow> file_pair list" where
  "allFiles (ContainerObject files links folders) = files @ concat (map allFilesFolder folders)"
| "allFilesFolder (FolderPair name op relPath conflict hierObj) = allFiles hierObj"

definition spaceNeeded :: "selected_side \<Rightarrow> minimum_disk_space_needed \<Rightarrow> int64_t" where
  "spaceNeeded side inst =
     (case side of LEFT_SIDE \<Rightarrow> spaceNeededLeft inst | RIGHT_SIDE \<Rightarrow> spaceNeededRight inst)"

section \<open>Move resolution (pass 0)\<close>

datatype sync_error = FileError | ThreadInterruption

text \<open>
  The move algorithm looks upwards: \<^verbatim>\<open>fsObj.parent()\<close> is a \<^verbatim>\<open>ContainerObject\<close>, which the
  code tests with \<^verbatim>\<open>dynamic_cast<FolderPair*>\<close>: it is either the \<^verbatim>\<open>BaseFolderPair\<close> or a
  \<^verbatim>\<open>FolderPair\<close>, itself a \<^verbatim>\<open>FileSystemObject\<close> with a parent. An item is therefore given
  with its chain of ancestors, each with the child lists that \<^verbatim>\<open>refSubLinks()\<close>,
  \<^verbatim>\<open>refSubFiles()\<close> and \<^verbatim>\<open>refSubFolders()\<close> return for it.
\<close>

datatype file_system_object =
  FileSystemObject (getPairItemName: string) (getSyncOperation: sync_operation)
                   (parent: parent_object)
and parent_object =
    BaseFolderPair (children: container_object)
  | ParentFolderPair (asFolderPair: file_system_object) (children: container_object)

text \<open>
  \<^verbatim>\<open>haveNameClash(shortname, m)\<close>: \<^verbatim>\<open>std::any_of\<close> over the list with \<^verbatim>\<open>equalFilePath\<close>, which
  is declared outside this file (its case sensitivity depends on the platform) and is a
  parameter here. \<open>itemName\<close> is \<^verbatim>\<open>getPairItemName()\<close> of the list's element type.
\<close>

definition haveNameClash ::
  "(string \<Rightarrow> string \<Rightarrow> bool) \<Rightarrow> ('a \<Rightarrow> string) \<Rightarrow> string \<Rightarrow> 'a list \<Rightarrow> bool" where
  "haveNameClash equalFilePath itemName shortname m =
     list_ex (\<lambda>obj. equalFilePath (itemName obj) shortname) m"

text \<open>
  The lambda that initialises \<^verbatim>\<open>sourceWillBeDeleted\<close> in \<^verbatim>\<open>resolveMoveConflicts<side>\<close>. The
  template parameter \<open>side\<close> is in scope; the lambda does not read it.
\<close>

definition sourceWillBeDeleted :: "selected_side \<Rightarrow> file_system_object \<Rightarrow> bool" where
  "sourceWillBeDeleted side sourceFile =
     (case parent sourceFile of
        BaseFolderPair _ \<Rightarrow> False
      | ParentFolderPair parentFolder _ \<Rightarrow>
          (case getSyncOperation parentFolder of
             SO_DELETE_LEFT \<Rightarrow> True
           | SO_DELETE_RIGHT \<Rightarrow> True
           | SO_MOVE_LEFT_FROM \<Rightarrow> False
           | SO_MOVE_RIGHT_FROM \<Rightarrow> False
           | SO_MOVE_LEFT_TO \<Rightarrow> False
           | SO_MOVE_RIGHT_TO \<Rightarrow> False
           | SO_OVERWRITE_LEFT \<Rightarrow> False
           | SO_OVERWRITE_RIGHT \<Rightarrow> False
           | SO_CREATE_NEW_LEFT \<Rightarrow> False
           | SO_CREATE_NEW_RIGHT \<Rightarrow> False
           | SO_DO_NOTHING \<Rightarrow> False
           | SO_EQUAL \<Rightarrow> False
           | SO_UNRESOLVED_CONFLICT \<Rightarrow> False
           | SO_COPY_METADATA_TO_LEFT \<Rightarrow> False
           | SO_COPY_METADATA_TO_RIGHT \<Rightarrow> False))"


text \<open>The local lambda \<^verbatim>\<open>haveNameClash(const FilePair&)\<close> of \<^verbatim>\<open>resolveMoveConflicts\<close>.\<close>

definition haveNameClash_FilePair ::
  "(string \<Rightarrow> string \<Rightarrow> bool) \<Rightarrow> file_system_object \<Rightarrow> bool" where
  "haveNameClash_FilePair equalFilePath file =
     (haveNameClash equalFilePath linkPairItemName (getPairItemName file)
        (refSubLinks (children (parent file))) \<or>
      haveNameClash equalFilePath folderPairItemName (getPairItemName file)
        (refSubFolders (children (parent file))))"

text \<open>
  \<^verbatim>\<open>createParentFolder\<close>: \<open>Inr False\<close> is the \<^verbatim>\<open>return false\<close> on a name clash. The
  assertion that the parent folder is not scheduled for deletion has no effect on the
  result. The call
  \<^verbatim>\<open>synchronizeFolder(*parentFolder)\<close> does file I/O and may throw; whether it does is an
  answer of the environment, the parameter \<open>synchronizeFolder\<close> (\<open>Some e\<close> when it throws
  \<open>e\<close>). The names that the clash tests read are those of the tree at the call.
\<close>

fun createParentFolder ::
  "(string \<Rightarrow> string \<Rightarrow> bool) \<Rightarrow> (file_system_object \<Rightarrow> sync_error option) \<Rightarrow>
   file_system_object \<Rightarrow> sync_error + bool" where
  "createParentFolder equalFilePath synchronizeFolder (FileSystemObject name op par) =
     (case par of
        BaseFolderPair _ \<Rightarrow> Inr True
      | ParentFolderPair parentFolder _ \<Rightarrow>
          (case createParentFolder equalFilePath synchronizeFolder parentFolder of
             Inl e \<Rightarrow> Inl e
           | Inr False \<Rightarrow> Inr False
           | Inr True \<Rightarrow>
               if haveNameClash equalFilePath linkPairItemName (getPairItemName parentFolder)
                    (refSubLinks (children (parent parentFolder))) \<or>
                  haveNameClash equalFilePath filePairItemName (getPairItemName parentFolder)
                    (refSubFiles (children (parent parentFolder)))
               then Inr False
               else (case synchronizeFolder parentFolder of
                       Some e \<Rightarrow> Inl e
                     | None \<Rightarrow> Inr True)))"

text \<open>
  \<^verbatim>\<open>resolveMoveConflicts<side>\<close> ends in one of three ways: it does nothing (the move is
  left to the second pass), it returns \<^verbatim>\<open>setup2StepMove<side>(sourceFile, targetFile)\<close>, or it
  calls \<^verbatim>\<open>synchronizeFile(targetFile)\<close>. The result names the way taken; an exception of
  \<^verbatim>\<open>createParentFolder\<close> propagates.
\<close>

datatype move_resolution =
    DELAY_TO_SECOND_PASS
  | SETUP_2STEP_MOVE selected_side
  | SYNCHRONIZE_TARGET_FILE

definition resolveMoveConflicts ::
  "(string \<Rightarrow> string \<Rightarrow> bool) \<Rightarrow> (file_system_object \<Rightarrow> sync_error option) \<Rightarrow>
   selected_side \<Rightarrow> file_system_object \<Rightarrow> file_system_object \<Rightarrow> sync_error + move_resolution" where
  "resolveMoveConflicts equalFilePath synchronizeFolder side sourceFile targetFile =
     (if sourceWillBeDeleted side sourceFile \<or> haveNameClash_FilePair equalFilePath sourceFile
      then (if haveNameClash_FilePair equalFilePath targetFile then Inr (SETUP_2STEP_MOVE side)
            else (case createParentFolder equalFilePath synchronizeFolder targetFile of
                    Inl e \<Rightarrow> Inl e
                  | Inr False \<Rightarrow> Inr (SETUP_2STEP_MOVE side)
                  | Inr True \<Rightarrow> Inr SYNCHRONIZE_TARGET_FILE))
      else Inr DELAY_TO_SECOND_PASS)"

text \<open>The folders above an item, nearest first, and the clash test that
  \<^verbatim>\<open>createParentFolder\<close> makes for one of them.\<close>

fun ancestorFolders :: "file_system_object \<Rightarrow> file_system_object list" where
  "ancestorFolders (FileSystemObject name op par) =
     (case par of
        BaseFolderPair _ \<Rightarrow> []
      | ParentFolderPair parentFolder _ \<Rightarrow> parentFolder # ancestorFolders parentFolder)"

definition folderNameClash :: "(string \<Rightarrow> string \<Rightarrow> bool) \<Rightarrow> file_system_object \<Rightarrow> bool" where
  "folderNameClash equalFilePath parentFolder =
     (haveNameClash equalFilePath linkPairItemName (getPairItemName parentFolder)
        (refSubLinks (children (parent parentFolder))) \<or>
      haveNameClash equalFilePath filePairItemName (getPairItemName parentFolder)
        (refSubFiles (children (parent parentFolder))))"

text \<open>
  A tree for the examples. On the left there are the folder \<open>old\<close> with the file \<open>s\<close> and a
  file \<open>d\<close>; on the right there is a folder \<open>d\<close> with the file \<open>t\<close>, which has the content of
  \<open>s\<close>. The right side is mirrored to the left: \<open>old\<close> and the file \<open>d\<close> are deleted on
  the left, the folder \<open>d\<close> is created there, and \<open>old/s\<close> is moved to \<open>d/t\<close>.
\<close>

definition ex_old_children :: container_object where
  "ex_old_children = ContainerObject
     [\<lparr>filePairItemName = ''s'', fileSyncOperation = SO_MOVE_LEFT_FROM,
       fileSizeLeft = 7, fileSizeRight = 0,
       filePairRelativePath = ''old/s'', fileSyncOpConflict = []\<rparr>] [] []"

definition ex_d_children :: container_object where
  "ex_d_children = ContainerObject
     [\<lparr>filePairItemName = ''t'', fileSyncOperation = SO_MOVE_LEFT_TO,
       fileSizeLeft = 0, fileSizeRight = 7,
       filePairRelativePath = ''d/t'', fileSyncOpConflict = []\<rparr>] [] []"

definition ex_base :: "string \<Rightarrow> container_object" where
  "ex_base fileName = ContainerObject
     [\<lparr>filePairItemName = fileName, fileSyncOperation = SO_DELETE_LEFT,
       fileSizeLeft = 5, fileSizeRight = 0,
       filePairRelativePath = fileName, fileSyncOpConflict = []\<rparr>]
     []
     [FolderPair ''old'' SO_DELETE_LEFT ''old'' [] ex_old_children,
      FolderPair ''d'' SO_CREATE_NEW_LEFT ''d'' [] ex_d_children]"

definition ex_source :: "string \<Rightarrow> file_system_object" where
  "ex_source fileName = FileSystemObject ''s'' SO_MOVE_LEFT_FROM
     (ParentFolderPair (FileSystemObject ''old'' SO_DELETE_LEFT (BaseFolderPair (ex_base fileName)))
        ex_old_children)"

definition ex_target :: "string \<Rightarrow> file_system_object" where
  "ex_target fileName = FileSystemObject ''t'' SO_MOVE_LEFT_TO
     (ParentFolderPair (FileSystemObject ''d'' SO_CREATE_NEW_LEFT (BaseFolderPair (ex_base fileName)))
        ex_d_children)"




section \<open>Workload\<close>

text \<open>
  A work item is a closure over one item of the tree. The four closures that
  \<^verbatim>\<open>appendFolderLevelWorkItems\<close> creates are the constructors: the folder closure calls
  \<^verbatim>\<open>synchronizeFolder\<close> and then \<^verbatim>\<open>addFolderToProcess\<close>, the others call
  \<^verbatim>\<open>prepareFileMove\<close>, \<^verbatim>\<open>synchronizeFile\<close> and \<^verbatim>\<open>synchronizeLink\<close>. The item a closure refers
  to is the item as it is when the closure is created.
\<close>

datatype work_item =
    SYNCHRONIZE_FOLDER folder_pair
  | PREPARE_FILE_MOVE file_pair
  | SYNCHRONIZE_FILE file_pair
  | SYNCHRONIZE_LINK symlink_pair


definition push_back :: "'a list \<Rightarrow> 'a \<Rightarrow> 'a list" where
  "push_back v x = v @ [x]"

text \<open>\<^verbatim>\<open>std::reverse(v.begin() + countOld, v.end())\<close>.\<close>

definition reverse_from :: "nat \<Rightarrow> 'a list \<Rightarrow> 'a list" where
  "reverse_from countOld v = take countOld v @ rev (drop countOld v)"

definition appendFolderLevelWorkItems ::
  "pass_no \<Rightarrow> container_object \<Rightarrow> work_item list \<Rightarrow> container_object list \<Rightarrow>
   work_item list \<times> container_object list" where
  "appendFolderLevelWorkItems pass hierObj workItems foldersToProcess =
     (let itemCountOld = length workItems;
          folderCountOld = length foldersToProcess;
          (workItems1, foldersToProcess1) =
            fold (\<lambda>folder (wi, fp).
                    if pass = getPass_FolderPair folder
                    then (push_back wi (SYNCHRONIZE_FOLDER folder), fp)
                    else (wi, push_back fp (folderContainer folder)))
                 (refSubFolders hierObj) (workItems, foldersToProcess);
          workItems2 =
            fold (\<lambda>file wi.
                    if pass = PASS_ZERO then push_back wi (PREPARE_FILE_MOVE file)
                    else if pass = getPass_FilePair file then push_back wi (SYNCHRONIZE_FILE file)
                    else wi)
                 (refSubFiles hierObj) workItems1;
          workItems3 =
            fold (\<lambda>symlink wi.
                    if pass = getPass_SymlinkPair symlink
                    then push_back wi (SYNCHRONIZE_LINK symlink)
                    else wi)
                 (refSubLinks hierObj) workItems2
      in (reverse_from itemCountOld workItems3, reverse_from folderCountOld foldersToProcess1))"



text \<open>
  The class \<^verbatim>\<open>Workload\<close>: the pass, the buckets \<^verbatim>\<open>workload_\<close> (one per worker thread) and
  \<^verbatim>\<open>foldersToProcess_\<close>. The idle count and the condition variable serve the blocking of
  an idle worker only and are left out: \<open>getNext\<close> returns \<open>None\<close> where the worker would
  wait for new work.
\<close>

record workload =
  pass :: pass_no
  buckets :: "work_item list list"
  foldersToProcess :: "container_object list"

definition Workload :: "pass_no \<Rightarrow> container_object \<Rightarrow> nat \<Rightarrow> workload" where
  "Workload p baseFolder threadCount =
     \<lparr>pass = p, buckets = replicate threadCount [], foldersToProcess = [baseFolder]\<rparr>"

definition addFolderToProcess :: "container_object \<Rightarrow> workload \<Rightarrow> workload" where
  "addFolderToProcess folder w = w\<lparr>foldersToProcess := push_back (foldersToProcess w) folder\<rparr>"

lemma fold_push_folders:
  "fold (\<lambda>folder (wi, fp).
           if P folder then (push_back wi (f folder), fp) else (wi, push_back fp (g folder)))
        folders (workItems, toProcess)
   = (workItems @ map f (filter P folders),
      toProcess @ map g (filter (\<lambda>folder. \<not> P folder) folders))"
  by (induction folders arbitrary: workItems toProcess) (simp_all add: push_back_def)

lemma fold_push_if:
  "fold (\<lambda>x wi. if P x then push_back wi (f x) else wi) xs workItems
   = workItems @ map f (filter P xs)"
  by (induction xs arbitrary: workItems) (simp_all add: push_back_def)

lemma fold_push_files:
  "fold (\<lambda>x wi. if z then push_back wi (h x) else if P x then push_back wi (f x) else wi)
        xs workItems
   = workItems @ (if z then map h xs else map f (filter P xs))"
  by (induction xs arbitrary: workItems) (simp_all add: push_back_def)

lemma reverse_from_append: "reverse_from (length xs) (xs @ ys) = xs @ rev ys"
  by (simp add: reverse_from_def)

lemma appendFolderLevelWorkItems_eq:
  "appendFolderLevelWorkItems p hierObj workItems folders =
     (workItems @ rev
        (map SYNCHRONIZE_FOLDER (filter (\<lambda>folder. p = getPass_FolderPair folder) (refSubFolders hierObj))
         @ (if p = PASS_ZERO then map PREPARE_FILE_MOVE (refSubFiles hierObj)
            else map SYNCHRONIZE_FILE (filter (\<lambda>file. p = getPass_FilePair file) (refSubFiles hierObj)))
         @ map SYNCHRONIZE_LINK (filter (\<lambda>symlink. p = getPass_SymlinkPair symlink) (refSubLinks hierObj))),
      folders @ rev
        (map folderContainer (filter (\<lambda>folder. p \<noteq> getPass_FolderPair folder) (refSubFolders hierObj))))"
  by (simp add: appendFolderLevelWorkItems_def Let_def fold_push_folders fold_push_files
        fold_push_if reverse_from_append)

lemma size_filter_folders:
  "sum_list (map size (map folderContainer (filter P folders))) \<le> size_list size folders"
proof (induction folders)
  case Nil
  show ?case by simp
next
  case (Cons folder folders)
  have "size (folderContainer folder) \<le> size folder"
    by (cases folder) simp
  with Cons show ?case by simp
qed

lemma size_subfolders:
  "sum_list (map size (map folderContainer (filter P (refSubFolders hierObj)))) < size hierObj"
proof (cases hierObj)
  case (ContainerObject files links folders)
  then show ?thesis
    using size_filter_folders[of P folders] by simp
qed

function getNext_loop :: "nat \<Rightarrow> workload \<Rightarrow> work_item option \<times> workload" where
  "getNext_loop threadIdx w =
     (if length (buckets w) \<le> threadIdx then (None, w)
      else if buckets w ! threadIdx \<noteq> [] then
        (Some (last (buckets w ! threadIdx)),
         w\<lparr>buckets := (buckets w)[threadIdx := butlast (buckets w ! threadIdx)]\<rparr>)
      else if foldersToProcess w \<noteq> [] then
        getNext_loop threadIdx
          (w\<lparr>buckets := (buckets w)[threadIdx :=
                fst (appendFolderLevelWorkItems (pass w) (last (foldersToProcess w))
                       (buckets w ! threadIdx) (butlast (foldersToProcess w)))],
             foldersToProcess :=
                snd (appendFolderLevelWorkItems (pass w) (last (foldersToProcess w))
                       (buckets w ! threadIdx) (butlast (foldersToProcess w)))\<rparr>)
      else (None, w))"
  by pat_completeness auto
termination
proof (relation "measure (\<lambda>(threadIdx, w). sum_list (map size (foldersToProcess w)))")
  show "wf (measure (\<lambda>(threadIdx, w). sum_list (map size (foldersToProcess w))))"
    by simp
next
  fix threadIdx :: nat and w :: workload
  assume ne: "foldersToProcess w \<noteq> []"
  let ?fs = "foldersToProcess w"
  have split: "?fs = butlast ?fs @ [last ?fs]"
    using ne by simp
  have "sum_list (map size ?fs) = sum_list (map size (butlast ?fs)) + size (last ?fs)"
    by (subst split) simp
  moreover have "sum_list (map size (map folderContainer
                   (filter (\<lambda>folder. pass w \<noteq> getPass_FolderPair folder) (refSubFolders (last ?fs)))))
                 < size (last ?fs)"
    by (rule size_subfolders)
  ultimately show
    "((threadIdx,
       w\<lparr>buckets := (buckets w)[threadIdx :=
            fst (appendFolderLevelWorkItems (pass w) (last ?fs) (buckets w ! threadIdx) (butlast ?fs))],
         foldersToProcess :=
            snd (appendFolderLevelWorkItems (pass w) (last ?fs) (buckets w ! threadIdx) (butlast ?fs))\<rparr>),
      (threadIdx, w))
     \<in> measure (\<lambda>(threadIdx, w). sum_list (map size (foldersToProcess w)))"
    by (simp add: appendFolderLevelWorkItems_eq rev_map[symmetric])
qed

declare getNext_loop.simps [simp del]

text \<open>
  \<^verbatim>\<open>std::max_element\<close> over the buckets by size: the index of the first largest bucket.
\<close>

fun max_element_from :: "nat \<Rightarrow> nat \<Rightarrow> nat \<Rightarrow> nat list \<Rightarrow> nat" where
  "max_element_from largest largestSize i [] = largest"
| "max_element_from largest largestSize i (n # sizes) =
     (if largestSize < n then max_element_from i n (Suc i) sizes
      else max_element_from largest largestSize (Suc i) sizes)"

definition max_element :: "'a list list \<Rightarrow> nat" where
  "max_element v = (case v of [] \<Rightarrow> 0 | b # bs \<Rightarrow> max_element_from 0 (length b) 1 (map length bs))"

text \<open>
  The \<^verbatim>\<open>erase_if\<close> of the work stealing: the elements at the even positions are pushed to
  the thief's bucket and erased, the others stay. The result is (stolen, kept).
\<close>

fun erase_if_even :: "nat \<Rightarrow> 'a list \<Rightarrow> 'a list \<times> 'a list" where
  "erase_if_even pos [] = ([], [])"
| "erase_if_even pos (wi # items) =
     (let (stolen, kept) = erase_if_even (pos + 1) items
      in if pos mod 2 = 0 then (wi # stolen, kept) else (stolen, wi # kept))"

definition getNext :: "nat \<Rightarrow> workload \<Rightarrow> work_item option \<times> workload" where
  "getNext threadIdx w =
     (case getNext_loop threadIdx w of
        (Some workItem, w1) \<Rightarrow> (Some workItem, w1)
      | (None, w1) \<Rightarrow>
          if length (buckets w1) \<le> threadIdx then (None, w1)
          else
            (let victim = max_element (buckets w1);
                 items = buckets w1 ! victim
             in if items \<noteq> [] then
                  (let (stolen, kept) = erase_if_even 0 items;
                       own = buckets w1 ! threadIdx @ stolen
                   in (Some (last own),
                       w1\<lparr>buckets := (buckets w1)[victim := kept, threadIdx := butlast own]\<rparr>))
                else (None, w1)))"

text \<open>
  The states of the workload of one pass: it starts with the base folder to expand; a
  worker takes its next item; a folder closure that runs adds its folder, in the state the
  synchronization left it in, to the folders to process.
\<close>

inductive reachable :: "pass_no \<Rightarrow> container_object \<Rightarrow> nat \<Rightarrow> workload \<Rightarrow> bool"
  for p :: pass_no and baseFolder :: container_object and threadCount :: nat where
  reachable_init: "0 < threadCount \<Longrightarrow> reachable p baseFolder threadCount (Workload p baseFolder threadCount)"
| reachable_getNext:
    "reachable p baseFolder threadCount w \<Longrightarrow> threadIdx < threadCount \<Longrightarrow>
     reachable p baseFolder threadCount (snd (getNext threadIdx w))"
| reachable_addFolderToProcess:
    "reachable p baseFolder threadCount w \<Longrightarrow>
     reachable p baseFolder threadCount (addFolderToProcess folder w)"






section \<open>Statistics reporting and deletion handling\<close>

text \<open>
  The part of \<^verbatim>\<open>AsyncCallback\<close> that the statistics use: the four atomic counters. The
  two lists record the calls of \<^verbatim>\<open>updateDataProcessed\<close> and \<^verbatim>\<open>updateDataTotal\<close> in order;
  they are not state of the program but its history, kept to state what a run emits.
\<close>

record async_callback =
  itemsDeltaProcessed :: c_int
  bytesDeltaProcessed :: int64_t
  itemsDeltaTotal :: c_int
  bytesDeltaTotal :: int64_t
  processedCalls :: "(c_int \<times> int64_t) list"
  totalCalls :: "(c_int \<times> int64_t) list"

definition updateDataProcessed :: "c_int \<Rightarrow> int64_t \<Rightarrow> async_callback \<Rightarrow> async_callback" where
  "updateDataProcessed itemsDelta bytesDelta a =
     a\<lparr>itemsDeltaProcessed := itemsDeltaProcessed a + itemsDelta,
       bytesDeltaProcessed := bytesDeltaProcessed a + bytesDelta,
       processedCalls := processedCalls a @ [(itemsDelta, bytesDelta)]\<rparr>"

definition updateDataTotal :: "c_int \<Rightarrow> int64_t \<Rightarrow> async_callback \<Rightarrow> async_callback" where
  "updateDataTotal itemsDelta bytesDelta a =
     a\<lparr>itemsDeltaTotal := itemsDeltaTotal a + itemsDelta,
       bytesDeltaTotal := bytesDeltaTotal a + bytesDelta,
       totalCalls := totalCalls a @ [(itemsDelta, bytesDelta)]\<rparr>"

record async_item_stat_reporter =
  itemsReported :: c_int
  bytesReported :: int64_t
  itemsExpected :: c_int
  bytesExpected :: int64_t
  exeptionCount :: int

datatype deletion_policy = PERMANENT | RECYCLER | VERSIONING

text \<open>
  \<^verbatim>\<open>DeletionHandling\<close>: the policy, the two paths, and the two handles that are created on
  first use (\<open>None\<close> is the null \<^verbatim>\<open>unique_ptr\<close>; a handle is named by the path it was
  created for).
\<close>

record deletion_handling =
  deletionPolicy :: deletion_policy
  baseFolderPath :: string
  recyclerSession :: "string option"
  versioningFolderPath :: string
  versioner :: "string option"

text \<open>
  The operations of the abstract file system, the recycler session and the versioner that
  the removal functions call. Their implementations are outside this file: what a call
  answers is given by the environment, \<open>None\<close> for a thrown \<^verbatim>\<open>FileError\<close> and \<open>Some b\<close> for
  a return (for the removals \<open>b\<close> tells whether the item existed; the callers discard it).
  \<^verbatim>\<open>revisionFile\<close> reports the bytes it copies through \<^verbatim>\<open>notifyUnbufferedIO\<close>; the
  environment gives the list of these byte counts.
\<close>

datatype afs_call =
    RemoveFileIfExists string
  | RemoveSymlinkIfExists string
  | CreateRecyclerSession string
  | RecycleItem string string string
  | CreateFileVersioner string
  | RevisionFile string string string
  | RevisionSymlink string string string

record afs_backend =
  afsAnswer :: "afs_call \<Rightarrow> bool option"
  afsUnbufferedIO :: "afs_call \<Rightarrow> int64_t list"

text \<open>
  The state a worker thread acts on while it removes one item: the callback object, the
  item's stat reporter, the deletion handler of the side, the file system calls made so
  far (history), what the coming calls of \<^verbatim>\<open>interruptionPoint()\<close> will find (\<open>True\<close>: the
  thread was asked to stop; none left: it is not), and the number of exceptions in
  flight that \<^verbatim>\<open>getUncaughtExceptionCount()\<close> returns.
\<close>

record sync_context =
  acb :: async_callback
  statReporter :: async_item_stat_reporter
  delHandling :: deletion_handling
  afsCalls :: "afs_call list"
  interruptionRequests :: "bool list"
  uncaughtExceptionCount :: int

type_synonym 'a action = "sync_context \<Rightarrow> (sync_error + 'a) \<times> sync_context"

definition andThen :: "'a action \<Rightarrow> ('a \<Rightarrow> 'b action) \<Rightarrow> 'b action" where
  "andThen m f ctx = (case m ctx of (Inl e, ctx1) \<Rightarrow> (Inl e, ctx1) | (Inr x, ctx1) \<Rightarrow> f x ctx1)"

definition interruptionPoint :: "unit action" where
  "interruptionPoint ctx =
     (case interruptionRequests ctx of
        [] \<Rightarrow> (Inr (), ctx)
      | requested # rest \<Rightarrow>
          (if requested then Inl ThreadInterruption else Inr (),
           ctx\<lparr>interruptionRequests := rest\<rparr>))"

text \<open>The constructor, \<^verbatim>\<open>reportDelta\<close> and the destructor of \<^verbatim>\<open>AsyncItemStatReporter\<close>.
  The comparisons are those of \<^verbatim>\<open>int\<close> and \<^verbatim>\<open>int64_t\<close>, hence signed.\<close>

definition AsyncItemStatReporter :: "c_int \<Rightarrow> int64_t \<Rightarrow> sync_context \<Rightarrow> sync_context" where
  "AsyncItemStatReporter expectedItems expectedBytes ctx =
     ctx\<lparr>statReporter :=
           \<lparr>itemsReported = 0, bytesReported = 0,
            itemsExpected = expectedItems, bytesExpected = expectedBytes,
            exeptionCount = uncaughtExceptionCount ctx\<rparr>\<rparr>"

definition reportDelta :: "c_int \<Rightarrow> int64_t \<Rightarrow> unit action" where
  "reportDelta itemsDelta bytesDelta ctx =
     (let a1 = updateDataProcessed itemsDelta bytesDelta (acb ctx);
          r1 = (statReporter ctx)
                 \<lparr>itemsReported := itemsReported (statReporter ctx) + itemsDelta,
                  bytesReported := bytesReported (statReporter ctx) + bytesDelta\<rparr>;
          (a2, r2) =
            (if itemsExpected r1 <s itemsReported r1
             then (updateDataTotal (itemsReported r1 - itemsExpected r1) 0 a1,
                   r1\<lparr>itemsReported := itemsExpected r1\<rparr>)
             else (a1, r1));
          (a3, r3) =
            (if bytesExpected r2 <s bytesReported r2
             then (updateDataTotal 0 (bytesReported r2 - bytesExpected r2) a2,
                   r2\<lparr>bytesReported := bytesExpected r2\<rparr>)
             else (a2, r2))
      in interruptionPoint (ctx\<lparr>acb := a3, statReporter := r3\<rparr>))"

definition AsyncItemStatReporter_destructor :: "int \<Rightarrow> sync_context \<Rightarrow> sync_context" where
  "AsyncItemStatReporter_destructor uncaughtNow ctx =
     (let r = statReporter ctx;
          scopeFail = exeptionCount r < uncaughtNow
      in if scopeFail
         then ctx\<lparr>acb := updateDataTotal (itemsReported r) (bytesReported r) (acb ctx)\<rparr>
         else ctx\<lparr>acb := updateDataTotal (itemsReported r - itemsExpected r)
                                         (bytesReported r - bytesExpected r) (acb ctx)\<rparr>)"

text \<open>
  The scope of a reporter: it is constructed, the body runs, and the destructor runs when
  the scope is left, with one more exception in flight if the body threw.
\<close>

definition withStatReporter :: "c_int \<Rightarrow> int64_t \<Rightarrow> 'a action \<Rightarrow> 'a action" where
  "withStatReporter expectedItems expectedBytes body ctx =
     (case body (AsyncItemStatReporter expectedItems expectedBytes ctx) of
        (Inl e, ctx1) \<Rightarrow>
          (Inl e, AsyncItemStatReporter_destructor (uncaughtExceptionCount ctx1 + 1) ctx1)
      | (Inr x, ctx1) \<Rightarrow>
          (Inr x, AsyncItemStatReporter_destructor (uncaughtExceptionCount ctx1) ctx1))"

text \<open>A sequence of reports, as a body makes them one after the other.\<close>

fun reportDeltas :: "(c_int \<times> int64_t) list \<Rightarrow> unit action" where
  "reportDeltas [] ctx = (Inr (), ctx)"
| "reportDeltas ((itemsDelta, bytesDelta) # deltas) ctx =
     andThen (reportDelta itemsDelta bytesDelta) (\<lambda>_. reportDeltas deltas) ctx"

text \<open>
  A call through the \<^verbatim>\<open>parallel::\<close> wrappers: the call is made and either throws
  \<^verbatim>\<open>FileError\<close> or returns.
\<close>

definition parallel_call :: "afs_backend \<Rightarrow> afs_call \<Rightarrow> bool action" where
  "parallel_call backend call ctx =
     (case afsAnswer backend call of
        None \<Rightarrow> (Inl FileError, ctx\<lparr>afsCalls := afsCalls ctx @ [call]\<rparr>)
      | Some b \<Rightarrow> (Inr b, ctx\<lparr>afsCalls := afsCalls ctx @ [call]\<rparr>))"

definition getOrCreateRecyclerSession :: "afs_backend \<Rightarrow> string action" where
  "getOrCreateRecyclerSession backend ctx =
     (case recyclerSession (delHandling ctx) of
        Some session \<Rightarrow> (Inr session, ctx)
      | None \<Rightarrow>
          andThen (parallel_call backend (CreateRecyclerSession (baseFolderPath (delHandling ctx))))
            (\<lambda>_ ctx1. (Inr (baseFolderPath (delHandling ctx1)),
                        ctx1\<lparr>delHandling := (delHandling ctx1)
                               \<lparr>recyclerSession := Some (baseFolderPath (delHandling ctx1))\<rparr>\<rparr>))
            ctx)"

definition getOrCreateVersioner :: "afs_backend \<Rightarrow> string action" where
  "getOrCreateVersioner backend ctx =
     (case versioner (delHandling ctx) of
        Some v \<Rightarrow> (Inr v, ctx)
      | None \<Rightarrow>
          andThen (parallel_call backend (CreateFileVersioner (versioningFolderPath (delHandling ctx))))
            (\<lambda>_ ctx1. (Inr (versioningFolderPath (delHandling ctx1)),
                        ctx1\<lparr>delHandling := (delHandling ctx1)
                               \<lparr>versioner := Some (versioningFolderPath (delHandling ctx1))\<rparr>\<rparr>))
            ctx)"

text \<open>
  \<^verbatim>\<open>parallel::revisionFile\<close> with the callback \<^verbatim>\<open>notifyUnbufferedIO\<close>: the versioner calls it
  for each byte count, an exception of the callback propagates, and then the versioner
  throws or returns.
\<close>

fun forEach :: "('a \<Rightarrow> unit action) \<Rightarrow> 'a list \<Rightarrow> unit action" where
  "forEach f [] ctx = (Inr (), ctx)"
| "forEach f (x # xs) ctx = andThen (f x) (\<lambda>_. forEach f xs) ctx"

definition parallel_revisionFile ::
  "afs_backend \<Rightarrow> string \<Rightarrow> string \<Rightarrow> string \<Rightarrow> (int64_t \<Rightarrow> unit action) \<Rightarrow> bool action" where
  "parallel_revisionFile backend v path relativePath notifyUnbufferedIO ctx =
     andThen (forEach notifyUnbufferedIO (afsUnbufferedIO backend (RevisionFile v path relativePath)))
       (\<lambda>_ ctx1.
          case afsAnswer backend (RevisionFile v path relativePath) of
            None \<Rightarrow> (Inl FileError, ctx1)
          | Some b \<Rightarrow> (Inr b, ctx1))
       (ctx\<lparr>afsCalls := afsCalls ctx @ [RevisionFile v path relativePath]\<rparr>)"

text \<open>
  Modelled from the spec: \<^verbatim>\<open>AFS::TEMP_FILE_ENDING\<close> and \<^verbatim>\<open>endsWith\<close> are declared outside
  this file. The specification names the reserved temporary-file suffix \<^verbatim>\<open>.ffs_tmp\<close>, as
  does the comment at its use; \<^verbatim>\<open>endsWith(str, postfix)\<close> tells whether \<open>str\<close> ends with
  \<open>postfix\<close>.
\<close>

definition TEMP_FILE_ENDING :: string where
  "TEMP_FILE_ENDING = ''.ffs_tmp''"

definition endsWith :: "string \<Rightarrow> string \<Rightarrow> bool" where
  "endsWith str postfix =
     (length postfix \<le> length str \<and> drop (length str - length postfix) str = postfix)"

definition removeFileWithCallback :: "afs_backend \<Rightarrow> string \<Rightarrow> string \<Rightarrow> unit action" where
  "removeFileWithCallback backend path relativePath =
     andThen
       (if endsWith relativePath TEMP_FILE_ENDING
        then parallel_call backend (RemoveFileIfExists path)
        else (\<lambda>ctx.
          case deletionPolicy (delHandling ctx) of
            PERMANENT \<Rightarrow> parallel_call backend (RemoveFileIfExists path) ctx
          | RECYCLER \<Rightarrow>
              andThen (getOrCreateRecyclerSession backend)
                (\<lambda>session. parallel_call backend (RecycleItem session path relativePath)) ctx
          | VERSIONING \<Rightarrow>
              andThen (getOrCreateVersioner backend)
                (\<lambda>v. parallel_revisionFile backend v path relativePath
                        (\<lambda>bytesDelta. reportDelta 0 bytesDelta)) ctx))
       (\<lambda>_. reportDelta 1 0)"


text \<open>
  The removal by policy as the specification words it: which calls the removal of a file
  makes under each of the three policies, the handle being created first where it does
  not exist yet (and nothing more being called when that fails).
\<close>

definition spec_policy_calls ::
  "afs_backend \<Rightarrow> deletion_handling \<Rightarrow> string \<Rightarrow> string \<Rightarrow> afs_call list" where
  "spec_policy_calls backend dh path relativePath =
     (case deletionPolicy dh of
        PERMANENT \<Rightarrow> [RemoveFileIfExists path]
      | RECYCLER \<Rightarrow>
          (case recyclerSession dh of
             Some session \<Rightarrow> [RecycleItem session path relativePath]
           | None \<Rightarrow>
               CreateRecyclerSession (baseFolderPath dh) #
               (if afsAnswer backend (CreateRecyclerSession (baseFolderPath dh)) = None then []
                else [RecycleItem (baseFolderPath dh) path relativePath]))
      | VERSIONING \<Rightarrow>
          (case versioner dh of
             Some v \<Rightarrow> [RevisionFile v path relativePath]
           | None \<Rightarrow>
               CreateFileVersioner (versioningFolderPath dh) #
               (if afsAnswer backend (CreateFileVersioner (versioningFolderPath dh)) = None then []
                else [RevisionFile (versioningFolderPath dh) path relativePath])))"



text \<open>
  A context for the examples: nothing counted yet, a reporter for one expected item and no
  bytes, no handle created yet, no interruption requested. The example backend answers
  every removal with \<open>False\<close> (the item did not exist any more), and its versioner
  reports 5 and then 7 bytes.
\<close>

definition ex_context :: "deletion_policy \<Rightarrow> sync_context" where
  "ex_context policy =
     \<lparr>acb = \<lparr>itemsDeltaProcessed = 0, bytesDeltaProcessed = 0,
             itemsDeltaTotal = 0, bytesDeltaTotal = 0,
             processedCalls = [], totalCalls = []\<rparr>,
      statReporter = \<lparr>itemsReported = 0, bytesReported = 0,
                      itemsExpected = 1, bytesExpected = 0, exeptionCount = 0\<rparr>,
      delHandling = \<lparr>deletionPolicy = policy, baseFolderPath = ''/L'',
                     recyclerSession = None, versioningFolderPath = ''/V'',
                     versioner = None\<rparr>,
      afsCalls = [],
      interruptionRequests = [],
      uncaughtExceptionCount = 0\<rparr>"


text \<open>What the reporter has counted and not yet passed on to the total is the
  difference of what was processed and what was added to the total.\<close>

definition balanced :: "sync_context \<Rightarrow> sync_context \<Rightarrow> bool" where
  "balanced ctx0 ctx \<longleftrightarrow>
     itemsReported (statReporter ctx) + (itemsDeltaTotal (acb ctx) - itemsDeltaTotal (acb ctx0))
       = itemsDeltaProcessed (acb ctx) - itemsDeltaProcessed (acb ctx0)
     \<and> bytesReported (statReporter ctx) + (bytesDeltaTotal (acb ctx) - bytesDeltaTotal (acb ctx0))
       = bytesDeltaProcessed (acb ctx) - bytesDeltaProcessed (acb ctx0)
     \<and> itemsExpected (statReporter ctx) = itemsExpected (statReporter ctx0)
     \<and> bytesExpected (statReporter ctx) = bytesExpected (statReporter ctx0)
     \<and> exeptionCount (statReporter ctx) = exeptionCount (statReporter ctx0)
     \<and> uncaughtExceptionCount ctx = uncaughtExceptionCount ctx0"

section \<open>Theorems\<close>

text \<open>
  C1. For every file pair \<^verbatim>\<open>getPass\<close> returns pass 1 for the two deletions, for an
  overwrite pass 1 when the target side's file is strictly larger than the source side's
  and pass 2 otherwise, pass 2 for move targets, creations and metadata copies, and
  no pass for move sources, \<^verbatim>\<open>DO_NOTHING\<close>, \<^verbatim>\<open>EQUAL\<close> and conflicts. For every symlink
  pair and every folder pair a deletion is pass 1, every other operation that is
  dispatched at all is pass 2, and the operations that are not dispatched (moves, which
  violate an invariant there, \<^verbatim>\<open>DO_NOTHING\<close>, \<^verbatim>\<open>EQUAL\<close>, conflicts) get no pass. No item
  is ever assigned pass 0.
\<close>

theorem getPass_table:
  "getPass_FilePair file =
     spec_pass_file (fileSyncOperation file) (unat (fileSizeLeft file)) (unat (fileSizeRight file))
   \<and> getPass_SymlinkPair link = spec_pass_link_or_folder (linkSyncOperation link)
   \<and> getPass_FolderPair folder = spec_pass_link_or_folder (folderSyncOperation folder)
   \<and> (getPass_SymlinkPair link = PASS_ONE) = isDelete (linkSyncOperation link)
   \<and> (getPass_FolderPair folder = PASS_ONE) = isDelete (folderSyncOperation folder)
   \<and> getPass_SymlinkPair link \<in> {PASS_ONE, PASS_TWO, PASS_NEVER}
   \<and> getPass_FolderPair folder \<in> {PASS_ONE, PASS_TWO, PASS_NEVER}
   \<and> getPass_FilePair file \<noteq> PASS_ZERO"
proof -
  have f: "getPass_FilePair file =
      spec_pass_file (fileSyncOperation file) (unat (fileSizeLeft file)) (unat (fileSizeRight file))"
    by (cases "fileSyncOperation file")
       (simp_all add: getPass_FilePair_def spec_pass_file_def isDelete_def getFileSize_def
                      word_less_nat_alt)
  have l: "getPass_SymlinkPair link = spec_pass_link_or_folder (linkSyncOperation link)"
    by (cases "linkSyncOperation link")
       (simp_all add: getPass_SymlinkPair_def spec_pass_link_or_folder_def isDelete_def)
  have d: "getPass_FolderPair folder = spec_pass_link_or_folder (folderSyncOperation folder)"
    by (cases "folderSyncOperation folder")
       (simp_all add: getPass_FolderPair_def spec_pass_link_or_folder_def isDelete_def)
  have z1: "spec_pass_file op a b \<noteq> PASS_ZERO" for op a b
    by (simp add: spec_pass_file_def)
  have z2: "spec_pass_link_or_folder op \<in> {PASS_ONE, PASS_TWO, PASS_NEVER}" for op
    by (simp add: spec_pass_link_or_folder_def)
  have z3: "(spec_pass_link_or_folder op = PASS_ONE) = isDelete op" for op
    by (simp add: spec_pass_link_or_folder_def)
  show ?thesis
    unfolding f l d using z1 z2 z3 by (intro conjI refl)
qed

subsection \<open>Statistics\<close>

lemma sint_plus_unsigned:
  fixes a b :: "64 word"
  assumes "- (2 ^ 63) \<le> sint a + uint b" "sint a + uint b < 2 ^ 63"
  shows "sint (a + b) = sint a + uint b"
proof -
  have sa: "sint a = signed_take_bit 63 (sint a)"
    by (rule signed_take_bit_int_eq_self[symmetric]) (use sint_ge[of a] sint_lt[of a] in simp_all)
  have sb: "sint b = signed_take_bit 63 (uint b)"
    by (simp add: sint_uint)
  have "sint (a + b) = signed_take_bit 63 (sint a + sint b)"
    by (simp add: sint_word_ariths)
  also have "\<dots> = signed_take_bit 63 (signed_take_bit 63 (sint a) + signed_take_bit 63 (uint b))"
    using sa sb by simp
  also have "\<dots> = signed_take_bit 63 (sint a + uint b)"
    by (rule signed_take_bit_add)
  also have "\<dots> = sint a + uint b"
    using assms by (simp add: signed_take_bit_int_eq_self)
  finally show ?thesis .
qed

lemma processFile_bytes:
  "getBytesToProcess (processFile file st) = getBytesToProcess st + spec_bytes file"
  by (cases "fileSyncOperation file")
     (simp_all add: processFile_def spec_bytes_def getBytesToProcess_def getFileSize_def)

text \<open>
  C5. For every file pair processed by \<^verbatim>\<open>SyncStatistics\<close>, the pending byte volume grows
  by the source side's file size for a copy or an overwrite (the right size for
  \<^verbatim>\<open>CREATE_NEW_LEFT\<close> and \<^verbatim>\<open>OVERWRITE_LEFT\<close>, the left size for \<^verbatim>\<open>CREATE_NEW_RIGHT\<close> and
  \<^verbatim>\<open>OVERWRITE_RIGHT\<close>) and by nothing for any other operation; the sum is the one of the
  64-bit counter, and it is the sum of the integers whenever that fits the counter. A move
  source leaves the statistics as they are (no item, no bytes); a move target adds one to
  the update count of its side, hence one to the items, and no bytes.
\<close>

theorem processFile_accounting:
  "getBytesToProcess (processFile file st) = getBytesToProcess st + spec_bytes file
   \<and> (- (2 ^ 63) \<le> sint (getBytesToProcess st) + uint (spec_bytes file)
        \<and> sint (getBytesToProcess st) + uint (spec_bytes file) < 2 ^ 63
      \<longrightarrow> sint (getBytesToProcess (processFile file st))
            = sint (getBytesToProcess st) + uint (spec_bytes file))
   \<and> processFile (file\<lparr>fileSyncOperation := SO_MOVE_LEFT_FROM\<rparr>) st = st
   \<and> processFile (file\<lparr>fileSyncOperation := SO_MOVE_RIGHT_FROM\<rparr>) st = st
   \<and> processFile (file\<lparr>fileSyncOperation := SO_MOVE_LEFT_TO\<rparr>) st
        = st\<lparr>updateLeft := updateLeft st + 1\<rparr>
   \<and> processFile (file\<lparr>fileSyncOperation := SO_MOVE_RIGHT_TO\<rparr>) st
        = st\<lparr>updateRight := updateRight st + 1\<rparr>
   \<and> getCUD (processFile (file\<lparr>fileSyncOperation := SO_MOVE_LEFT_TO\<rparr>) st) = getCUD st + 1
   \<and> getCUD (processFile (file\<lparr>fileSyncOperation := SO_MOVE_RIGHT_TO\<rparr>) st) = getCUD st + 1
   \<and> updateCount (processFile (file\<lparr>fileSyncOperation := SO_MOVE_LEFT_TO\<rparr>) st) = updateCount st + 1
   \<and> updateCount (processFile (file\<lparr>fileSyncOperation := SO_MOVE_RIGHT_TO\<rparr>) st) = updateCount st + 1"
proof -
  have b: "getBytesToProcess (processFile file st) = getBytesToProcess st + spec_bytes file"
    by (rule processFile_bytes)
  have i: "sint (getBytesToProcess (processFile file st))
             = sint (getBytesToProcess st) + uint (spec_bytes file)"
    if "- (2 ^ 63) \<le> sint (getBytesToProcess st) + uint (spec_bytes file)"
       "sint (getBytesToProcess st) + uint (spec_bytes file) < 2 ^ 63"
    using sint_plus_unsigned[OF that] b by simp
  have m: "processFile (file\<lparr>fileSyncOperation := SO_MOVE_LEFT_FROM\<rparr>) st = st"
          "processFile (file\<lparr>fileSyncOperation := SO_MOVE_RIGHT_FROM\<rparr>) st = st"
          "processFile (file\<lparr>fileSyncOperation := SO_MOVE_LEFT_TO\<rparr>) st
             = st\<lparr>updateLeft := updateLeft st + 1\<rparr>"
          "processFile (file\<lparr>fileSyncOperation := SO_MOVE_RIGHT_TO\<rparr>) st
             = st\<lparr>updateRight := updateRight st + 1\<rparr>"
    by (simp_all add: processFile_def)
  have c: "getCUD (st\<lparr>updateLeft := updateLeft st + 1\<rparr>) = getCUD st + 1"
          "getCUD (st\<lparr>updateRight := updateRight st + 1\<rparr>) = getCUD st + 1"
          "updateCount (st\<lparr>updateLeft := updateLeft st + 1\<rparr>) = updateCount st + 1"
          "updateCount (st\<lparr>updateRight := updateRight st + 1\<rparr>) = updateCount st + 1"
    by (simp_all add: getCUD_def createCount_def updateCount_def deleteCount_def)
  show ?thesis
    using b i m c by simp
qed

theorem processFile_accounting_witness:
  "- (2 ^ 63) \<le> sint (getBytesToProcess initial_statistics) + uint (200 :: 64 word)
   \<and> sint (getBytesToProcess initial_statistics) + uint (200 :: 64 word) < 2 ^ 63
   \<and> sint (getBytesToProcess (processFile
        \<lparr>filePairItemName = ''a.txt'', fileSyncOperation = SO_CREATE_NEW_LEFT,
         fileSizeLeft = 0, fileSizeRight = 200,
         filePairRelativePath = ''a.txt'', fileSyncOpConflict = []\<rparr> initial_statistics)) = 200"
  using processFile_accounting
    [of "\<lparr>filePairItemName = ''a.txt'', fileSyncOperation = SO_CREATE_NEW_LEFT,
          fileSizeLeft = 0, fileSizeRight = 200,
          filePairRelativePath = ''a.txt'', fileSyncOpConflict = []\<rparr>" initial_statistics]
  by (simp add: spec_bytes_def getBytesToProcess_def initial_statistics_def)

lemma half_less_iff: "(0.5 * real m < real_of_int n) \<longleftrightarrow> (int m < 2 * n)"
proof -
  have "(0.5 * real m < real_of_int n) \<longleftrightarrow> (real_of_int (int m) < real_of_int (2 * n))"
    by (simp add: mult.commute)
  also have "\<dots> \<longleftrightarrow> (int m < 2 * n)"
    by (rule of_int_less_iff)
  finally show ?thesis .
qed

text \<open>
  C10. \<^verbatim>\<open>significantDifferenceDetected\<close> returns false whenever the create count of at
  least one side is zero and the update, delete and conflict counts are all zero;
  otherwise it returns true exactly when the create count plus the delete count is at
  least 10 and exceeds half of the row count. The counts are the values of the accessors
  (\<^verbatim>\<open>int\<close> and \<^verbatim>\<open>size_t\<close>).
\<close>

theorem significantDifferenceDetected_threshold:
  "significantDifferenceDetected st \<longleftrightarrow>
     \<not> ((createCountSide LEFT_SIDE st = 0 \<or> createCountSide RIGHT_SIDE st = 0) \<and>
         updateCount st = 0 \<and> deleteCount st = 0 \<and> conflictCount st = 0) \<and>
     10 \<le> sint (createCount st + deleteCount st) \<and>
     int (unat (rowCount st)) < 2 * sint (createCount st + deleteCount st)"
  unfolding significantDifferenceDetected_def Let_def half_less_iff by auto

subsection \<open>Disk space\<close>

lemma spaceFile_delta:
  "spaceNeeded side (spaceFile file inst) = spaceNeeded side inst + spec_space_delta side file"
  by (cases side; cases "fileSyncOperation file")
     (simp_all add: spaceFile_def spaceNeeded_def spec_space_delta_def createOn_def deleteOn_def
        overwriteOn_def otherSide_def getFileSize_def)

lemma fold_spaceFile:
  "spaceNeeded side (fold spaceFile files inst) =
     spaceNeeded side inst + sum_list (map (spec_space_delta side) files)"
  by (induction files arbitrary: inst) (simp_all add: spaceFile_delta add.assoc)

lemma fold_spaceRecurseFolder:
  assumes "\<And>d inst. d \<in> set folders \<Longrightarrow>
     spaceNeeded side (spaceRecurseFolder d inst) =
       spaceNeeded side inst + sum_list (map (spec_space_delta side) (allFilesFolder d))"
  shows "spaceNeeded side (fold spaceRecurseFolder folders inst) =
     spaceNeeded side inst
       + sum_list (map (spec_space_delta side) (concat (map allFilesFolder folders)))"
  using assms by (induction folders arbitrary: inst) (simp_all add: add.assoc)

lemma spaceRecurse_sum:
  "spaceNeeded side (spaceRecurse hierObj inst) =
     spaceNeeded side inst + sum_list (map (spec_space_delta side) (allFiles hierObj))"
  "spaceNeeded side (spaceRecurseFolder folder inst) =
     spaceNeeded side inst + sum_list (map (spec_space_delta side) (allFilesFolder folder))"
proof (induction hierObj and folder arbitrary: inst and inst)
  case (ContainerObject files links folders)
  show ?case
    using ContainerObject by (simp add: fold_spaceRecurseFolder fold_spaceFile add.assoc)
next
  case (FolderPair name op relPath conflict hierObj)
  then show ?case by simp
qed

text \<open>
  C9. For one base pair the estimator returns, for each side, the sum over the files of
  the tree of that file's delta: the other side's size for a creation on the side, minus
  the side's own size for a deletion there, the other side's size minus the side's own for
  an overwrite there, and zero for every other operation (moves, metadata copies,
  conflicts, \<^verbatim>\<open>DO_NOTHING\<close>, \<^verbatim>\<open>EQUAL\<close>, and the operations of the other side). The result
  depends on the files alone: symlinks and the folders' own operations add nothing. The
  sums are those of the 64-bit counters.
\<close>

theorem calculate_sum:
  "calculate baseFolder =
     (sum_list (map (spec_space_delta LEFT_SIDE) (allFiles baseFolder)),
      sum_list (map (spec_space_delta RIGHT_SIDE) (allFiles baseFolder)))"
  using spaceRecurse_sum(1)[of LEFT_SIDE baseFolder "\<lparr>spaceNeededLeft = 0, spaceNeededRight = 0\<rparr>"]
        spaceRecurse_sum(1)[of RIGHT_SIDE baseFolder "\<lparr>spaceNeededLeft = 0, spaceNeededRight = 0\<rparr>"]
  by (simp add: calculate_def Let_def spaceNeeded_def)

subsection \<open>Move resolution\<close>

text \<open>
  The lambda does not read \<open>side\<close>: it is true exactly when the parent is a folder pair
  that carries one of the two deletions.
\<close>

lemma sourceWillBeDeleted_either_side:
  "sourceWillBeDeleted side sourceFile \<longleftrightarrow>
     (\<exists>parentFolder hierObj.
        parent sourceFile = ParentFolderPair parentFolder hierObj \<and>
        getSyncOperation parentFolder \<in> {SO_DELETE_LEFT, SO_DELETE_RIGHT})"
proof (cases "parent sourceFile")
  case (BaseFolderPair hierObj)
  then show ?thesis by (simp add: sourceWillBeDeleted_def)
next
  case (ParentFolderPair parentFolder hierObj)
  then show ?thesis
    by (cases "getSyncOperation parentFolder") (simp_all add: sourceWillBeDeleted_def)
qed



lemma createParentFolder_refusal:
  "createParentFolder equalFilePath synchronizeFolder fsObj = Inr False \<Longrightarrow>
     list_ex (folderNameClash equalFilePath) (ancestorFolders fsObj)"
proof (induction equalFilePath synchronizeFolder fsObj rule: createParentFolder.induct)
  case (1 equalFilePath synchronizeFolder name op par)
  show ?case
  proof (cases par)
    case (BaseFolderPair hierObj)
    with "1.prems" show ?thesis by simp
  next
    case (ParentFolderPair parentFolder hierObj)
    show ?thesis
    proof (cases "createParentFolder equalFilePath synchronizeFolder parentFolder")
      case (Inl e)
      with "1.prems" ParentFolderPair show ?thesis by simp
    next
      case (Inr ok)
      show ?thesis
      proof (cases ok)
        case False
        with Inr "1.IH"[OF ParentFolderPair] ParentFolderPair show ?thesis by simp
      next
        case True
        with Inr "1.prems" ParentFolderPair have "folderNameClash equalFilePath parentFolder"
          by (auto simp: folderNameClash_def split: if_splits option.splits)
        with ParentFolderPair show ?thesis by simp
      qed
    qed
  qed
qed

text \<open>
  The claim C3 as stated fails. In the example tree with a file \<open>d\<close> beside the folder
  \<open>d\<close>, the source's parent is deleted, the target \<open>t\<close> has no name clash, and
  \<^verbatim>\<open>createParentFolder\<close> refuses because the folder \<open>d\<close> clashes with the file \<open>d\<close>; the
  engine then sets up a two-step move and does not call \<^verbatim>\<open>synchronizeFile(targetFile)\<close>.
\<close>

theorem resolveMoveConflicts_refusal_counterexample:
  "sourceWillBeDeleted LEFT_SIDE (ex_source ''d'')
   \<and> \<not> haveNameClash_FilePair (=) (ex_target ''d'')
   \<and> createParentFolder (=) (\<lambda>folder. None) (ex_target ''d'') = Inr False
   \<and> resolveMoveConflicts (=) (\<lambda>folder. None) LEFT_SIDE (ex_source ''d'') (ex_target ''d'')
       = Inr (SETUP_2STEP_MOVE LEFT_SIDE)
   \<and> resolveMoveConflicts (=) (\<lambda>folder. None) LEFT_SIDE (ex_source ''d'') (ex_target ''d'')
       \<noteq> Inr SYNCHRONIZE_TARGET_FILE"
  by (simp add: resolveMoveConflicts_def sourceWillBeDeleted_def haveNameClash_FilePair_def
        haveNameClash_def ex_source_def ex_target_def ex_base_def ex_old_children_def
        ex_d_children_def)

text \<open>
  C3, amended. In pass-0 move resolution, whenever the move must be prepared immediately
  (\<^verbatim>\<open>sourceWillBeDeleted\<close> holds or the source file has a name clash) and the target file's
  own name does not clash: if \<^verbatim>\<open>createParentFolder\<close> refuses, which it does only when some
  ancestor folder's name clashes with a sibling file or symlink, the engine sets up a
  two-step move (\<^verbatim>\<open>setup2StepMove<side>\<close>); the engine synchronizes the move immediately
  from the target side if and only if \<^verbatim>\<open>createParentFolder\<close> succeeds; and if
  \<^verbatim>\<open>createParentFolder\<close> throws, the exception propagates and neither is done.
\<close>

theorem resolveMoveConflicts_after_createParentFolder:
  assumes "sourceWillBeDeleted side sourceFile \<or> haveNameClash_FilePair equalFilePath sourceFile"
    and "\<not> haveNameClash_FilePair equalFilePath targetFile"
  shows "(createParentFolder equalFilePath synchronizeFolder targetFile = Inr False \<longrightarrow>
            resolveMoveConflicts equalFilePath synchronizeFolder side sourceFile targetFile
              = Inr (SETUP_2STEP_MOVE side)
            \<and> list_ex (folderNameClash equalFilePath) (ancestorFolders targetFile))
       \<and> (createParentFolder equalFilePath synchronizeFolder targetFile = Inr True \<longrightarrow>
            resolveMoveConflicts equalFilePath synchronizeFolder side sourceFile targetFile
              = Inr SYNCHRONIZE_TARGET_FILE)
       \<and> (resolveMoveConflicts equalFilePath synchronizeFolder side sourceFile targetFile
              = Inr SYNCHRONIZE_TARGET_FILE)
          = (createParentFolder equalFilePath synchronizeFolder targetFile = Inr True)
       \<and> (resolveMoveConflicts equalFilePath synchronizeFolder side sourceFile targetFile
              = Inr (SETUP_2STEP_MOVE side))
          = (createParentFolder equalFilePath synchronizeFolder targetFile = Inr False)
       \<and> (resolveMoveConflicts equalFilePath synchronizeFolder side sourceFile targetFile = Inl e)
          = (createParentFolder equalFilePath synchronizeFolder targetFile = Inl e)
       \<and> resolveMoveConflicts equalFilePath synchronizeFolder side sourceFile targetFile
            \<noteq> Inr DELAY_TO_SECOND_PASS"
proof -
  let ?cpf = "createParentFolder equalFilePath synchronizeFolder targetFile"
  let ?res = "resolveMoveConflicts equalFilePath synchronizeFolder side sourceFile targetFile"
  have res: "?res = (case ?cpf of
                       Inl e \<Rightarrow> Inl e
                     | Inr False \<Rightarrow> Inr (SETUP_2STEP_MOVE side)
                     | Inr True \<Rightarrow> Inr SYNCHRONIZE_TARGET_FILE)"
    using assms by (auto simp: resolveMoveConflicts_def)
  have clash: "list_ex (folderNameClash equalFilePath) (ancestorFolders targetFile)"
    if "?cpf = Inr False"
    using that by (rule createParentFolder_refusal)
  show ?thesis
  proof (cases ?cpf)
    case (Inl e')
    with res show ?thesis by auto
  next
    case (Inr ok)
    with res clash show ?thesis by (cases ok) auto
  qed
qed

theorem resolveMoveConflicts_after_createParentFolder_witness:
  "(sourceWillBeDeleted LEFT_SIDE (ex_source ''d'')
      \<and> \<not> haveNameClash_FilePair (=) (ex_target ''d'')
      \<and> createParentFolder (=) (\<lambda>folder. None) (ex_target ''d'') = Inr False
      \<and> resolveMoveConflicts (=) (\<lambda>folder. None) LEFT_SIDE (ex_source ''d'') (ex_target ''d'')
          = Inr (SETUP_2STEP_MOVE LEFT_SIDE)
      \<and> list_ex (folderNameClash (=)) (ancestorFolders (ex_target ''d'')))
   \<and> (sourceWillBeDeleted LEFT_SIDE (ex_source ''e'')
      \<and> \<not> haveNameClash_FilePair (=) (ex_target ''e'')
      \<and> createParentFolder (=) (\<lambda>folder. None) (ex_target ''e'') = Inr True
      \<and> resolveMoveConflicts (=) (\<lambda>folder. None) LEFT_SIDE (ex_source ''e'') (ex_target ''e'')
          = Inr SYNCHRONIZE_TARGET_FILE)
   \<and> (createParentFolder (=) (\<lambda>folder. Some FileError) (ex_target ''e'') = Inl FileError
      \<and> resolveMoveConflicts (=) (\<lambda>folder. Some FileError) LEFT_SIDE (ex_source ''e'')
            (ex_target ''e'')
          = Inl FileError)"
proof -
  have s: "sourceWillBeDeleted LEFT_SIDE (ex_source n)" for n
    by (simp add: sourceWillBeDeleted_def ex_source_def)
  have t: "\<not> haveNameClash_FilePair (=) (ex_target n)" for n
    by (simp add: haveNameClash_FilePair_def haveNameClash_def ex_target_def ex_d_children_def)
  have d: "createParentFolder (=) (\<lambda>folder. None) (ex_target ''d'') = Inr False"
    by (simp add: haveNameClash_def ex_target_def ex_base_def)
  have e: "createParentFolder (=) (\<lambda>folder. None) (ex_target ''e'') = Inr True"
    by (simp add: haveNameClash_def ex_target_def ex_base_def)
  have f: "createParentFolder (=) (\<lambda>folder. Some FileError) (ex_target ''e'') = Inl FileError"
    by (simp add: haveNameClash_def ex_target_def ex_base_def)
  have s': "sourceWillBeDeleted LEFT_SIDE (ex_source n) \<or> haveNameClash_FilePair (=) (ex_source n)"
    for n using s by simp
  note d' = resolveMoveConflicts_after_createParentFolder
              [OF s'[of "''d''"] t[of "''d''"],
               where synchronizeFolder = "\<lambda>folder. None" and e = FileError]
  note e' = resolveMoveConflicts_after_createParentFolder
              [OF s'[of "''e''"] t[of "''e''"],
               where synchronizeFolder = "\<lambda>folder. None" and e = FileError]
  note f' = resolveMoveConflicts_after_createParentFolder
              [OF s'[of "''e''"] t[of "''e''"],
               where synchronizeFolder = "\<lambda>folder. Some FileError" and e = FileError]
  have rd: "resolveMoveConflicts (=) (\<lambda>folder. None) LEFT_SIDE (ex_source ''d'') (ex_target ''d'')
              = Inr (SETUP_2STEP_MOVE LEFT_SIDE)"
       and cd: "list_ex (folderNameClash (=)) (ancestorFolders (ex_target ''d''))"
    using d' d by simp_all
  have re: "resolveMoveConflicts (=) (\<lambda>folder. None) LEFT_SIDE (ex_source ''e'') (ex_target ''e'')
              = Inr SYNCHRONIZE_TARGET_FILE"
    using e' e by simp
  have rf: "resolveMoveConflicts (=) (\<lambda>folder. Some FileError) LEFT_SIDE (ex_source ''e'')
              (ex_target ''e'') = Inl FileError"
    using f' f by simp
  show ?thesis
    using s t d e f rd cd re rf by (intro conjI)
qed

subsection \<open>Workload\<close>




















subsection \<open>Deletion handling and statistics reporting\<close>

lemma andThen_fst:
  "fst (andThen m f ctx) = (case fst (m ctx) of Inl e \<Rightarrow> Inl e | Inr x \<Rightarrow> fst (f x (snd (m ctx))))"
  by (simp add: andThen_def split: prod.splits sum.splits)

lemma andThen_snd:
  "snd (andThen m f ctx) = (case fst (m ctx) of Inl e \<Rightarrow> snd (m ctx) | Inr x \<Rightarrow> snd (f x (snd (m ctx))))"
  by (simp add: andThen_def split: prod.splits sum.splits)

lemma interruptionPoint_snd:
  "acb (snd (interruptionPoint ctx)) = acb ctx"
  "statReporter (snd (interruptionPoint ctx)) = statReporter ctx"
  "delHandling (snd (interruptionPoint ctx)) = delHandling ctx"
  "afsCalls (snd (interruptionPoint ctx)) = afsCalls ctx"
  "uncaughtExceptionCount (snd (interruptionPoint ctx)) = uncaughtExceptionCount ctx"
  by (simp_all add: interruptionPoint_def split: list.splits)

lemma reportDelta_snd:
  "delHandling (snd (reportDelta itemsDelta bytesDelta ctx)) = delHandling ctx"
  "afsCalls (snd (reportDelta itemsDelta bytesDelta ctx)) = afsCalls ctx"
  "uncaughtExceptionCount (snd (reportDelta itemsDelta bytesDelta ctx)) = uncaughtExceptionCount ctx"
  by (simp_all add: reportDelta_def Let_def interruptionPoint_snd split: prod.splits)

lemma updateDataTotal_processed:
  "processedCalls (updateDataTotal i b a) = processedCalls a"
  "itemsDeltaProcessed (updateDataTotal i b a) = itemsDeltaProcessed a"
  "bytesDeltaProcessed (updateDataTotal i b a) = bytesDeltaProcessed a"
  by (simp_all add: updateDataTotal_def)

lemma reportDelta_processedCalls:
  "processedCalls (acb (snd (reportDelta itemsDelta bytesDelta ctx)))
     = processedCalls (acb ctx) @ [(itemsDelta, bytesDelta)]"
  by (simp add: reportDelta_def Let_def interruptionPoint_snd updateDataTotal_processed
        updateDataProcessed_def split: prod.splits if_splits)


lemma forEach_reportDelta_snd:
  "delHandling (snd (forEach (\<lambda>bytesDelta. reportDelta 0 bytesDelta) ds ctx)) = delHandling ctx"
  "afsCalls (snd (forEach (\<lambda>bytesDelta. reportDelta 0 bytesDelta) ds ctx)) = afsCalls ctx"
  by (induction ds arbitrary: ctx) (simp_all add: andThen_snd reportDelta_snd split: sum.splits)


lemma parallel_call_snd:
  "acb (snd (parallel_call backend call ctx)) = acb ctx"
  "delHandling (snd (parallel_call backend call ctx)) = delHandling ctx"
  "afsCalls (snd (parallel_call backend call ctx)) = afsCalls ctx @ [call]"
  by (simp_all add: parallel_call_def split: option.splits)

lemma parallel_call_fst:
  "fst (parallel_call backend call ctx) = (case afsAnswer backend call of None \<Rightarrow> Inl FileError | Some b \<Rightarrow> Inr b)"
  by (simp add: parallel_call_def split: option.splits)

lemma getOrCreateRecyclerSession_effect:
  "acb (snd (getOrCreateRecyclerSession backend ctx)) = acb ctx"
  "afsCalls (snd (getOrCreateRecyclerSession backend ctx)) =
     afsCalls ctx @ (case recyclerSession (delHandling ctx) of
                       Some session \<Rightarrow> []
                     | None \<Rightarrow> [CreateRecyclerSession (baseFolderPath (delHandling ctx))])"
  "fst (getOrCreateRecyclerSession backend ctx) =
     (case recyclerSession (delHandling ctx) of
        Some session \<Rightarrow> Inr session
      | None \<Rightarrow> (if afsAnswer backend (CreateRecyclerSession (baseFolderPath (delHandling ctx))) = None
                 then Inl FileError else Inr (baseFolderPath (delHandling ctx))))"
  by (auto simp: getOrCreateRecyclerSession_def andThen_fst andThen_snd parallel_call_snd
        parallel_call_fst split: option.splits sum.splits)

lemma getOrCreateVersioner_effect:
  "acb (snd (getOrCreateVersioner backend ctx)) = acb ctx"
  "afsCalls (snd (getOrCreateVersioner backend ctx)) =
     afsCalls ctx @ (case versioner (delHandling ctx) of
                       Some v \<Rightarrow> []
                     | None \<Rightarrow> [CreateFileVersioner (versioningFolderPath (delHandling ctx))])"
  "fst (getOrCreateVersioner backend ctx) =
     (case versioner (delHandling ctx) of
        Some v \<Rightarrow> Inr v
      | None \<Rightarrow> (if afsAnswer backend (CreateFileVersioner (versioningFolderPath (delHandling ctx))) = None
                 then Inl FileError else Inr (versioningFolderPath (delHandling ctx))))"
  by (auto simp: getOrCreateVersioner_def andThen_fst andThen_snd parallel_call_snd
        parallel_call_fst split: option.splits sum.splits)

lemma parallel_revisionFile_afsCalls:
  "afsCalls (snd (parallel_revisionFile backend v path relativePath
                    (\<lambda>bytesDelta. reportDelta 0 bytesDelta) ctx))
     = afsCalls ctx @ [RevisionFile v path relativePath]"
  by (simp add: parallel_revisionFile_def andThen_snd forEach_reportDelta_snd
        split: sum.splits option.splits)


text \<open>The first stage of the removal of a file: everything before the final report.\<close>

lemma removeFile_afsCalls:
  "afsCalls (snd (removeFileWithCallback backend path relativePath ctx)) =
     afsCalls ctx @
       (if endsWith relativePath TEMP_FILE_ENDING then [RemoveFileIfExists path]
        else spec_policy_calls backend (delHandling ctx) path relativePath)"
  by (auto simp: removeFileWithCallback_def andThen_snd andThen_fst reportDelta_snd
        parallel_call_snd parallel_call_fst getOrCreateRecyclerSession_effect
        getOrCreateVersioner_effect parallel_revisionFile_afsCalls spec_policy_calls_def
        split: sum.splits option.splits deletion_policy.splits)


lemma endsWith_append: "endsWith (stem @ postfix) postfix"
  by (simp add: endsWith_def)

lemma removeFile_temp_delHandling:
  "endsWith relativePath TEMP_FILE_ENDING \<Longrightarrow>
     delHandling (snd (removeFileWithCallback backend path relativePath ctx)) = delHandling ctx"
  by (simp add: removeFileWithCallback_def andThen_snd reportDelta_snd parallel_call_snd
        split: sum.splits)

text \<open>
  C6. For every call of \<^verbatim>\<open>removeFileWithCallback\<close> whose relative path ends with the
  reserved temporary-file suffix, the one file system call made is the plain
  \<^verbatim>\<open>removeFileIfExists\<close> on the file's path, whatever the deletion policy, and no recycler
  session or versioner is created or used: under \<^verbatim>\<open>VERSIONING\<close> the file is not moved to
  the versioning folder. For every other relative path the calls are those of the policy:
  \<^verbatim>\<open>removeFileIfExists\<close> for \<^verbatim>\<open>PERMANENT\<close>, \<^verbatim>\<open>recycleItem\<close> for \<^verbatim>\<open>RECYCLER\<close>,
  \<^verbatim>\<open>revisionFile\<close> for \<^verbatim>\<open>VERSIONING\<close>, after the handle was created if it did not exist.
\<close>

theorem removeFileWithCallback_dispatch:
  "afsCalls (snd (removeFileWithCallback backend path (stem @ TEMP_FILE_ENDING) ctx))
     = afsCalls ctx @ [RemoveFileIfExists path]
   \<and> delHandling (snd (removeFileWithCallback backend path (stem @ TEMP_FILE_ENDING) ctx))
     = delHandling ctx
   \<and> afsCalls (snd (removeFileWithCallback backend path relativePath ctx))
     = afsCalls ctx @
         (if endsWith relativePath TEMP_FILE_ENDING then [RemoveFileIfExists path]
          else spec_policy_calls backend (delHandling ctx) path relativePath)"
  using removeFile_afsCalls[of backend path "stem @ TEMP_FILE_ENDING" ctx]
        removeFile_afsCalls[of backend path relativePath ctx]
        removeFile_temp_delHandling[of "stem @ TEMP_FILE_ENDING" backend path ctx]
  by (simp add: endsWith_append)











lemma destructor_totalCalls:
  "totalCalls (acb (AsyncItemStatReporter_destructor uncaughtNow ctx)) =
     totalCalls (acb ctx) @
       [if exeptionCount (statReporter ctx) < uncaughtNow
        then (itemsReported (statReporter ctx), bytesReported (statReporter ctx))
        else (itemsReported (statReporter ctx) - itemsExpected (statReporter ctx),
              bytesReported (statReporter ctx) - bytesExpected (statReporter ctx))]"
  by (simp add: AsyncItemStatReporter_destructor_def Let_def updateDataTotal_def)

lemma interruptionPoint_balanced:
  "balanced ctx0 ctx \<Longrightarrow> balanced ctx0 (snd (interruptionPoint ctx))"
  by (simp add: balanced_def interruptionPoint_snd)

lemma reportDelta_balanced:
  assumes "balanced ctx0 ctx"
  shows "balanced ctx0 (snd (reportDelta itemsDelta bytesDelta ctx))"
  using assms
  by (auto simp: reportDelta_def Let_def balanced_def interruptionPoint_snd
        updateDataProcessed_def updateDataTotal_def algebra_simps split: prod.splits if_splits)

lemma reportDeltas_balanced:
  "balanced ctx0 ctx \<Longrightarrow> balanced ctx0 (snd (reportDeltas deltas ctx))"
proof (induction deltas arbitrary: ctx)
  case Nil
  then show ?case by simp
next
  case (Cons d deltas)
  obtain i b where d: "d = (i, b)" by (cases d)
  show ?case
    using Cons.IH[OF reportDelta_balanced[OF Cons.prems, of i b]] reportDelta_balanced[OF Cons.prems, of i b]
    by (simp add: d andThen_snd split: sum.splits)
qed

lemma constructor_balanced:
  "balanced (AsyncItemStatReporter expectedItems expectedBytes ctx)
            (AsyncItemStatReporter expectedItems expectedBytes ctx)"
  by (simp add: balanced_def AsyncItemStatReporter_def)

lemma withStatReporter_net:
  fixes ctx :: sync_context and deltas :: "(c_int \<times> int64_t) list"
    and expectedItems :: c_int and expectedBytes :: int64_t
  defines "ctx1 \<equiv> snd (reportDeltas deltas (AsyncItemStatReporter expectedItems expectedBytes ctx))"
    and "res \<equiv> fst (reportDeltas deltas (AsyncItemStatReporter expectedItems expectedBytes ctx))"
    and "ctx2 \<equiv> snd (withStatReporter expectedItems expectedBytes (reportDeltas deltas) ctx)"
  shows "itemsDeltaTotal (acb ctx2) - itemsDeltaTotal (acb ctx)
           = itemsDeltaProcessed (acb ctx2) - itemsDeltaProcessed (acb ctx)
             - (case res of Inl e \<Rightarrow> 0 | Inr x \<Rightarrow> expectedItems)"
    and "bytesDeltaTotal (acb ctx2) - bytesDeltaTotal (acb ctx)
           = bytesDeltaProcessed (acb ctx2) - bytesDeltaProcessed (acb ctx)
             - (case res of Inl e \<Rightarrow> 0 | Inr x \<Rightarrow> expectedBytes)"
    and "totalCalls (acb ctx2) = totalCalls (acb ctx1) @
           [case res of
              Inl e \<Rightarrow> (itemsReported (statReporter ctx1), bytesReported (statReporter ctx1))
            | Inr x \<Rightarrow> (itemsReported (statReporter ctx1) - expectedItems,
                        bytesReported (statReporter ctx1) - expectedBytes)]"
proof -
  let ?c0 = "AsyncItemStatReporter expectedItems expectedBytes ctx"
  have b: "balanced ?c0 ctx1"
    unfolding ctx1_def by (rule reportDeltas_balanced) (rule constructor_balanced)
  have c0: "acb ?c0 = acb ctx" "itemsExpected (statReporter ?c0) = expectedItems"
           "bytesExpected (statReporter ?c0) = expectedBytes"
           "exeptionCount (statReporter ?c0) = uncaughtExceptionCount ?c0"
    by (simp_all add: AsyncItemStatReporter_def)
  have ctx2: "ctx2 = AsyncItemStatReporter_destructor
                       (case res of Inl e \<Rightarrow> uncaughtExceptionCount ctx1 + 1
                                  | Inr x \<Rightarrow> uncaughtExceptionCount ctx1) ctx1"
    unfolding ctx2_def res_def ctx1_def
    by (simp add: withStatReporter_def split: prod.splits sum.splits)
  show "itemsDeltaTotal (acb ctx2) - itemsDeltaTotal (acb ctx)
           = itemsDeltaProcessed (acb ctx2) - itemsDeltaProcessed (acb ctx)
             - (case res of Inl e \<Rightarrow> 0 | Inr x \<Rightarrow> expectedItems)"
    using b c0 unfolding ctx2
    by (cases res)
       (auto simp: balanced_def AsyncItemStatReporter_destructor_def Let_def updateDataTotal_def
          algebra_simps)
  show "bytesDeltaTotal (acb ctx2) - bytesDeltaTotal (acb ctx)
           = bytesDeltaProcessed (acb ctx2) - bytesDeltaProcessed (acb ctx)
             - (case res of Inl e \<Rightarrow> 0 | Inr x \<Rightarrow> expectedBytes)"
    using b c0 unfolding ctx2
    by (cases res)
       (auto simp: balanced_def AsyncItemStatReporter_destructor_def Let_def updateDataTotal_def
          algebra_simps)
  show "totalCalls (acb ctx2) = totalCalls (acb ctx1) @
           [case res of
              Inl e \<Rightarrow> (itemsReported (statReporter ctx1), bytesReported (statReporter ctx1))
            | Inr x \<Rightarrow> (itemsReported (statReporter ctx1) - expectedItems,
                        bytesReported (statReporter ctx1) - expectedBytes)]"
    using b c0 unfolding ctx2 destructor_totalCalls
    by (cases res) (auto simp: balanced_def)
qed

text \<open>
  C8. For every \<^verbatim>\<open>AsyncItemStatReporter\<close>: each \<^verbatim>\<open>reportDelta(i, b)\<close> forwards \<open>(i, b)\<close> to
  \<^verbatim>\<open>updateDataProcessed\<close>. The destructor, when no more exceptions are in flight than at
  construction (normal scope exit), calls \<^verbatim>\<open>updateDataTotal\<close> with exactly
  (\<^verbatim>\<open>itemsReported_\<close> - \<^verbatim>\<open>itemsExpected_\<close>, \<^verbatim>\<open>bytesReported_\<close> - \<^verbatim>\<open>bytesExpected_\<close>), and during
  exception unwinding with exactly (\<^verbatim>\<open>itemsReported_\<close>, \<^verbatim>\<open>bytesReported_\<close>), the values
  of the members at that moment. Over the whole scope of a reporter whose body makes any
  sequence of reports, the total grows by what was processed less what was expected on a
  normal exit, and by what was processed when the body throws: the budget grows by the
  work already counted.
\<close>

theorem AsyncItemStatReporter_accounting:
  "processedCalls (acb (snd (reportDelta itemsDelta bytesDelta ctx)))
     = processedCalls (acb ctx) @ [(itemsDelta, bytesDelta)]
   \<and> (uncaughtNow \<le> exeptionCount (statReporter ctx) \<longrightarrow>
        totalCalls (acb (AsyncItemStatReporter_destructor uncaughtNow ctx))
          = totalCalls (acb ctx) @
              [(itemsReported (statReporter ctx) - itemsExpected (statReporter ctx),
                bytesReported (statReporter ctx) - bytesExpected (statReporter ctx))])
   \<and> (exeptionCount (statReporter ctx) < uncaughtNow \<longrightarrow>
        totalCalls (acb (AsyncItemStatReporter_destructor uncaughtNow ctx))
          = totalCalls (acb ctx) @
              [(itemsReported (statReporter ctx), bytesReported (statReporter ctx))])
   \<and> itemsDeltaTotal (acb (snd (withStatReporter expectedItems expectedBytes (reportDeltas deltas) ctx)))
       - itemsDeltaTotal (acb ctx)
     = itemsDeltaProcessed (acb (snd (withStatReporter expectedItems expectedBytes (reportDeltas deltas) ctx)))
       - itemsDeltaProcessed (acb ctx)
       - (case fst (reportDeltas deltas (AsyncItemStatReporter expectedItems expectedBytes ctx)) of
            Inl e \<Rightarrow> 0 | Inr x \<Rightarrow> expectedItems)
   \<and> bytesDeltaTotal (acb (snd (withStatReporter expectedItems expectedBytes (reportDeltas deltas) ctx)))
       - bytesDeltaTotal (acb ctx)
     = bytesDeltaProcessed (acb (snd (withStatReporter expectedItems expectedBytes (reportDeltas deltas) ctx)))
       - bytesDeltaProcessed (acb ctx)
       - (case fst (reportDeltas deltas (AsyncItemStatReporter expectedItems expectedBytes ctx)) of
            Inl e \<Rightarrow> 0 | Inr x \<Rightarrow> expectedBytes)"
  using reportDelta_processedCalls[of itemsDelta bytesDelta ctx]
        destructor_totalCalls[of uncaughtNow ctx]
        withStatReporter_net(1,2)[of expectedItems expectedBytes deltas ctx]
  by simp

theorem AsyncItemStatReporter_accounting_witness:
  "(0 \<le> exeptionCount (statReporter (snd (reportDelta 1 0 (ex_context PERMANENT))))
      \<and> totalCalls (acb (AsyncItemStatReporter_destructor 0
                           (snd (reportDelta 1 0 (ex_context PERMANENT))))) = [(0, 0)])
   \<and> (exeptionCount (statReporter (snd (reportDelta 1 0 (ex_context PERMANENT)))) < 1
      \<and> totalCalls (acb (AsyncItemStatReporter_destructor 1
                           (snd (reportDelta 1 0 (ex_context PERMANENT))))) = [(1, 0)])"
proof -
  let ?ctx = "snd (reportDelta 1 0 (ex_context PERMANENT))"
  have r: "statReporter ?ctx = \<lparr>itemsReported = 1, bytesReported = 0,
                                 itemsExpected = 1, bytesExpected = 0, exeptionCount = 0\<rparr>"
          "totalCalls (acb ?ctx) = []"
    by (simp_all add: reportDelta_def ex_context_def updateDataProcessed_def updateDataTotal_def
          interruptionPoint_def Let_def word_sless_alt)
  show ?thesis
    using AsyncItemStatReporter_accounting[of 1 0 "ex_context PERMANENT" 0 1 0 "[]"]
          AsyncItemStatReporter_accounting[of 1 0 "ex_context PERMANENT" 1 1 0 "[]"]
          AsyncItemStatReporter_accounting[of 1 0 ?ctx 0 1 0 "[]"]
          AsyncItemStatReporter_accounting[of 1 0 ?ctx 1 1 0 "[]"]
          r
    by simp
qed

end
